theory Spec2Isabelle
  imports Main "HOL-Library.Word"
begin

unbundle bit_operations_syntax

section \<open>Constants of the headers\<close>

text \<open>
  \<^verbatim>\<open>smart.c\<close> takes its command codes, direction codes, passthrough opcodes and result
  codes from \<^verbatim>\<open>smart.h\<close>, which is not among the sources. The functions below therefore
  receive the header as a value \<open>H\<close>, one field per macro, and a general theorem holds
  for every assignment of the macros that meets its hypotheses.
\<close>

type_synonym uint8_t = "8 word"
type_synonym uint16_t = "16 word"
type_synonym uint32_t = "32 word"

record smart_h =
  ATA_IDENTIFY_DEVICE :: uint8_t
  ATA_IDENTIFY_PACKET_DEVICE :: uint8_t
  ATA_READ_LOG_EXT :: uint8_t
  ATA_SMART_CMD :: uint8_t
  ATA_DATA_SET_MANAGEMENT :: uint8_t
  ATA_SMART_STATUS :: uint8_t
  ATA_SMART_WRITE_LOG_SECTOR :: uint8_t
  ATA_PASSTHROUGH_DATA_OUT :: uint8_t
  ATA_PASSTHROUGH_DATA_IN :: uint8_t
  ATA_PASSTHROUGH_DATA_NONE :: uint8_t
  SAT_ATA_PASSTHROUGH_12 :: uint8_t
  USB_JMICRON_ATA_PASSTHROUGH :: uint8_t
  USB_SUNPLUS_ATA_PASSTHROUGH :: uint8_t
  USB_CYPRESS_ATA_PASSTHROUGH :: uint8_t
  SECTOR_SIZE_SHIFT_BIT :: nat
  SPT_TIMEOUT_VALUE :: uint32_t
  SPT_SENSE_LENGTH :: uint8_t
  SPT_SUCCESS :: int
  SPT_ERROR_CDB_LENGTH :: int
  SPT_ERROR_BUFFER :: int
  SPT_ERROR_DIRECTION :: int
  SPT_ERROR_EXTENDED_CDB :: int
  SPT_ERROR_CDB_OPCODE :: int
  SPT_ERROR_TIMEOUT :: int
  SPT_ERROR_INVALID_PARAMETER :: int
  SPT_ERROR_CHECK_STATUS :: int
  SPT_ERROR_UNKNOWN_ERROR :: int

text \<open>
  The assignment used for evaluation: the ATA8-ACS command and SMART feature codes, the
  direction codes of \<^verbatim>\<open>ntddscsi.h\<close>, the passthrough opcodes of the bridges, 512-byte
  sectors, success as 0 and the failures as negative numbers (the comment above
  \<^verbatim>\<open>ScsiPassthroughDirect\<close>: 0 on success, a positive SCSI status, negative otherwise).
\<close>

definition rufus_smart_h :: smart_h where
  "rufus_smart_h = \<lparr>
     ATA_IDENTIFY_DEVICE = 0xEC,
     ATA_IDENTIFY_PACKET_DEVICE = 0xA1,
     ATA_READ_LOG_EXT = 0x2F,
     ATA_SMART_CMD = 0xB0,
     ATA_DATA_SET_MANAGEMENT = 0x06,
     ATA_SMART_STATUS = 0xDA,
     ATA_SMART_WRITE_LOG_SECTOR = 0xD6,
     ATA_PASSTHROUGH_DATA_OUT = 0,
     ATA_PASSTHROUGH_DATA_IN = 1,
     ATA_PASSTHROUGH_DATA_NONE = 2,
     SAT_ATA_PASSTHROUGH_12 = 0xA1,
     USB_JMICRON_ATA_PASSTHROUGH = 0xDF,
     USB_SUNPLUS_ATA_PASSTHROUGH = 0xF8,
     USB_CYPRESS_ATA_PASSTHROUGH = 0x24,
     SECTOR_SIZE_SHIFT_BIT = 9,
     SPT_TIMEOUT_VALUE = 2,
     SPT_SENSE_LENGTH = 32,
     SPT_SUCCESS = 0,
     SPT_ERROR_CDB_LENGTH = - 1,
     SPT_ERROR_BUFFER = - 2,
     SPT_ERROR_DIRECTION = - 3,
     SPT_ERROR_EXTENDED_CDB = - 4,
     SPT_ERROR_CDB_OPCODE = - 5,
     SPT_ERROR_TIMEOUT = - 6,
     SPT_ERROR_INVALID_PARAMETER = - 7,
     SPT_ERROR_CHECK_STATUS = - 8,
     SPT_ERROR_UNKNOWN_ERROR = - 99 \<rparr>"

section \<open>Direction of an ATA command\<close>

text \<open>
  \<^verbatim>\<open>GetAtaDirection\<close>. The \<^verbatim>\<open>switch\<close> is the chain of its case labels in source order;
  the \<^verbatim>\<open>ATA_SMART_CMD\<close> case falls through to \<^verbatim>\<open>ATA_DATA_SET_MANAGEMENT\<close> when
  \<^verbatim>\<open>smart_out\<close> holds.
\<close>

definition GetAtaDirection :: "smart_h \<Rightarrow> uint8_t \<Rightarrow> uint8_t \<Rightarrow> uint8_t" where
  "GetAtaDirection H AtaCmd Features =
     (let smart_out = (AtaCmd = ATA_SMART_CMD H \<and>
                       (Features = ATA_SMART_STATUS H \<or> Features = ATA_SMART_WRITE_LOG_SECTOR H))
      in if AtaCmd = ATA_IDENTIFY_DEVICE H \<or> AtaCmd = ATA_READ_LOG_EXT H
           then ATA_PASSTHROUGH_DATA_IN H
         else if AtaCmd = ATA_SMART_CMD H
           then (if \<not> smart_out then ATA_PASSTHROUGH_DATA_IN H else ATA_PASSTHROUGH_DATA_OUT H)
         else if AtaCmd = ATA_DATA_SET_MANAGEMENT H
           then ATA_PASSTHROUGH_DATA_OUT H
         else ATA_PASSTHROUGH_DATA_NONE H)"


section \<open>The SCSI passthrough transport\<close>

text \<open>
  A command of the caller: the register values of \<^verbatim>\<open>ATA_PASSTHROUGH_CMD\<close> that the
  encoders read.
\<close>

record ATA_PASSTHROUGH_CMD =
  AtaCmd :: uint8_t
  Features :: uint8_t
  Lba_low :: uint8_t
  Lba_mid :: uint8_t
  Lba_high :: uint8_t
  Device :: uint8_t

type_synonym HANDLE = nat
type_synonym size_t = nat

text \<open>
  The request that \<^verbatim>\<open>ScsiPassthroughDirect\<close> fills in, field by field. \<^verbatim>\<open>Length\<close> and
  \<^verbatim>\<open>SenseInfoOffset\<close> hold \<^verbatim>\<open>sizeof\<close> and \<^verbatim>\<open>offsetof\<close> of the structure for the build and
  are the same in every request; \<^verbatim>\<open>ScsiStatus\<close> is the device's answer. A pointer is the
  address it holds.
\<close>

record SCSI_PASS_THROUGH_DIRECT =
  sptd_PathId :: uint8_t
  sptd_TargetId :: uint8_t
  sptd_Lun :: uint8_t
  sptd_CdbLength :: uint8_t
  sptd_DataIn :: uint8_t
  sptd_SenseInfoLength :: uint8_t
  sptd_DataTransferLength :: uint32_t
  sptd_TimeOutValue :: uint32_t
  sptd_DataBuffer :: nat
  sptd_Cdb :: "uint8_t list"

text \<open>
  What lies outside \<^verbatim>\<open>smart.c\<close>: the world \<open>'w\<close> holds the device, the memory and the
  thread's last error, and the environment gives the functions that read or change it.
  \<open>DeviceIoControl\<close> answers a request with its return value and the \<^verbatim>\<open>ScsiStatus\<close> it left
  in the request; \<open>SmartCommands\<close> reads the bit \<^verbatim>\<open>CommandSetSupport.SmartCommands\<close> of
  the \<^verbatim>\<open>IDENTIFY_DEVICE_DATA\<close> at an address; \<open>DumpBufferHex\<close> gives the lines it prints.
\<close>

record 'w env =
  DeviceIoControl :: "HANDLE \<Rightarrow> SCSI_PASS_THROUGH_DIRECT \<Rightarrow> 'w \<Rightarrow> (bool \<times> uint8_t) \<times> 'w"
  GetLastError :: "'w \<Rightarrow> uint32_t"
  aligned_malloc :: "size_t \<Rightarrow> size_t \<Rightarrow> 'w \<Rightarrow> nat \<times> 'w"
  aligned_free :: "nat \<Rightarrow> 'w \<Rightarrow> 'w"
  SmartCommands :: "'w \<Rightarrow> nat \<Rightarrow> bool"
  DumpBufferHex :: "'w \<Rightarrow> nat \<Rightarrow> size_t \<Rightarrow> string list"

text \<open>Constants of the Windows headers (\<^verbatim>\<open>ntddscsi.h\<close>, \<^verbatim>\<open>winerror.h\<close>).\<close>

definition SCSI_IOCTL_DATA_OUT :: uint8_t where
  "SCSI_IOCTL_DATA_OUT = 0"

definition SCSI_IOCTL_DATA_IN :: uint8_t where
  "SCSI_IOCTL_DATA_IN = 1"

definition SCSI_IOCTL_DATA_UNSPECIFIED :: uint8_t where
  "SCSI_IOCTL_DATA_UNSPECIFIED = 2"

definition ERROR_INVALID_PARAMETER :: uint32_t where
  "ERROR_INVALID_PARAMETER = 87"

definition ERROR_SEM_TIMEOUT :: uint32_t where
  "ERROR_SEM_TIMEOUT = 121"

text \<open>\<^verbatim>\<open>sizeof(sptdwb.sptd.Cdb)\<close>: the request holds a CDB of 16 bytes.\<close>

definition sizeof_sptd_Cdb :: nat where
  "sizeof_sptd_Cdb = 16"

text \<open>\<^verbatim>\<open>"%02X"\<close> of a byte.\<close>

definition hex_digit :: "nat \<Rightarrow> char" where
  "hex_digit n = ''0123456789ABCDEF'' ! n"

definition hex02X :: "uint8_t \<Rightarrow> string" where
  "hex02X b = [hex_digit (unat b div 16), hex_digit (unat b mod 16)]"

definition SptStrerr :: "smart_h \<Rightarrow> int \<Rightarrow> string" where
  "SptStrerr H errcode =
     (if errcode > 0 \<and> errcode \<le> 0xff
        then ''SCSI status: 0x'' @ hex02X (word_of_int errcode)
      else if errcode = SPT_SUCCESS H then ''Success''
      else if errcode = SPT_ERROR_CDB_LENGTH H then ''Invalid CDB length''
      else if errcode = SPT_ERROR_BUFFER H
        then ''Buffer must be aligned to a page boundary and less than 64KB in size''
      else if errcode = SPT_ERROR_DIRECTION H then ''Invalid Direction''
      else if errcode = SPT_ERROR_EXTENDED_CDB H
        then ''Extended and variable length CDB commands are not supported''
      else if errcode = SPT_ERROR_CDB_OPCODE H then ''Opcodes above 0xC0 are not supported''
      else if errcode = SPT_ERROR_TIMEOUT H then ''Timeout''
      else if errcode = SPT_ERROR_INVALID_PARAMETER H then ''Invalid DeviceIoControl parameter''
      else if errcode = SPT_ERROR_CHECK_STATUS H then ''SCSI error (check Status)''
      else ''Unknown error'')"

text \<open>
  \<^verbatim>\<open>ScsiPassthroughDirect\<close>. \<open>Cdb\<close> is the array behind the pointer, of at least \<open>CdbLen\<close>
  bytes; \<^verbatim>\<open>memcpy\<close> puts its first \<open>CdbLen\<close> bytes in front of the zeroes of the request.
  The result is the returned \<^verbatim>\<open>int\<close> and the world after the call.
\<close>

definition ScsiPassthroughDirect ::
  "'w env \<Rightarrow> smart_h \<Rightarrow> HANDLE \<Rightarrow> uint8_t list \<Rightarrow> size_t \<Rightarrow> uint8_t \<Rightarrow> nat \<Rightarrow> size_t \<Rightarrow> uint32_t
     \<Rightarrow> 'w \<Rightarrow> int \<times> 'w" where
  "ScsiPassthroughDirect E H hPhysical Cdb CdbLen Direction DataBuffer BufLen Timeout w =
     (if CdbLen = 0 \<or> CdbLen > sizeof_sptd_Cdb then (SPT_ERROR_CDB_LENGTH H, w)
      else if DataBuffer mod 0x10 \<noteq> 0 \<or> BufLen > 0xFFFF then (SPT_ERROR_BUFFER H, w)
      else if Direction > SCSI_IOCTL_DATA_UNSPECIFIED then (SPT_ERROR_DIRECTION H, w)
      else if Cdb ! 0 = 0x7e \<or> Cdb ! 0 = 0x7f then (SPT_ERROR_EXTENDED_CDB H, w)
      else if Cdb ! 0 \<ge> 0xc0 \<and> Cdb ! 0 \<noteq> USB_JMICRON_ATA_PASSTHROUGH H
              \<and> Cdb ! 0 \<noteq> USB_SUNPLUS_ATA_PASSTHROUGH H
        then (SPT_ERROR_CDB_OPCODE H, w)
      else
        let sptd = \<lparr> sptd_PathId = 0,
                     sptd_TargetId = 0,
                     sptd_Lun = 0,
                     sptd_CdbLength = of_nat CdbLen,
                     sptd_DataIn = Direction,
                     sptd_SenseInfoLength = SPT_SENSE_LENGTH H,
                     sptd_DataTransferLength = ucast (of_nat BufLen :: uint16_t),
                     sptd_TimeOutValue = Timeout,
                     sptd_DataBuffer = DataBuffer,
                     sptd_Cdb = take CdbLen Cdb @ replicate (sizeof_sptd_Cdb - CdbLen) 0 \<rparr>;
            ((r, ScsiStatus), w) = DeviceIoControl E hPhysical sptd w
        in if r \<and> ScsiStatus = 0 then (SPT_SUCCESS H, w)
           else if ScsiStatus \<noteq> 0 then (uint ScsiStatus, w)
           else
             let err = GetLastError E w
             in if err = ERROR_SEM_TIMEOUT then (SPT_ERROR_TIMEOUT H, w)
                else if err = ERROR_INVALID_PARAMETER then (SPT_ERROR_INVALID_PARAMETER H, w)
                else (SPT_ERROR_UNKNOWN_ERROR H, w))"

section \<open>The bridge encoders\<close>

text \<open>
  Each encoder fills its CDB array element by element and hands it to
  \<^verbatim>\<open>ScsiPassthroughDirect\<close>. The result is the returned \<^verbatim>\<open>int\<close>, the lines given to
  \<^verbatim>\<open>uprintf\<close> during the call, and the world after it. The C \<^verbatim>\<open>int\<close> expressions are
  computed on integers and cut to a byte by the assignment.
\<close>

definition SatAtaPassthrough ::
  "'w env \<Rightarrow> smart_h \<Rightarrow> HANDLE \<Rightarrow> ATA_PASSTHROUGH_CMD \<Rightarrow> nat \<Rightarrow> size_t \<Rightarrow> uint32_t
     \<Rightarrow> 'w \<Rightarrow> int \<times> string list \<times> 'w" where
  "SatAtaPassthrough E H hPhysical Command DataBuffer BufLen Timeout w =
     (let Cdb = replicate 12 (0::uint8_t);
          extend = (0::int);
          ck_cond = (0::int);
          protocol = (3::int);
          t_dir = (1::int);
          byte_block = (1::int);
          t_length = (0::int)
      in if BufLen mod 512 \<noteq> 0
         then (SPT_ERROR_BUFFER H,
               [''SatAtaPassthrough: BufLen must be a multiple of <block size>\<newline>''], w)
         else
           let Direction = GetAtaDirection H (AtaCmd Command) (Features Command);
               (protocol, t_length, t_dir) =
                  (if BufLen \<noteq> 0
                   then (if Direction = ATA_PASSTHROUGH_DATA_NONE H
                           then (protocol, t_length, t_dir)
                         else if Direction = ATA_PASSTHROUGH_DATA_IN H
                           then (4, 2, t_dir)
                         else if Direction = ATA_PASSTHROUGH_DATA_OUT H
                           then (5, 2, 0)
                         else (protocol, t_length, t_dir))
                   else (protocol, t_length, t_dir));
               Cdb = Cdb[0 := SAT_ATA_PASSTHROUGH_12 H];
               Cdb = Cdb[1 := word_of_int (push_bit 1 protocol OR extend)];
               Cdb = Cdb[2 := word_of_int (push_bit 5 ck_cond OR push_bit 3 t_dir
                                           OR push_bit 2 byte_block OR t_length)];
               Cdb = Cdb[3 := Features Command];
               Cdb = Cdb[4 := of_nat (drop_bit (SECTOR_SIZE_SHIFT_BIT H) BufLen)];
               Cdb = Cdb[5 := Lba_low Command];
               Cdb = Cdb[6 := Lba_mid Command];
               Cdb = Cdb[7 := Lba_high Command];
               Cdb = Cdb[8 := Device Command];
               Cdb = Cdb[9 := AtaCmd Command];
               (r, w) = ScsiPassthroughDirect E H hPhysical Cdb 12 Direction DataBuffer BufLen
                          Timeout w
           in (r, [], w))"

definition UsbJMPLAtaPassthrough ::
  "'w env \<Rightarrow> smart_h \<Rightarrow> HANDLE \<Rightarrow> ATA_PASSTHROUGH_CMD \<Rightarrow> nat \<Rightarrow> size_t \<Rightarrow> uint32_t \<Rightarrow> bool
     \<Rightarrow> 'w \<Rightarrow> int \<times> string list \<times> 'w" where
  "UsbJMPLAtaPassthrough E H hPhysical Command DataBuffer BufLen Timeout prolific w =
     (let Cdb = replicate 14 (0::uint8_t);
          Direction = GetAtaDirection H (AtaCmd Command) (Features Command);
          Cdb = Cdb[0 := USB_JMICRON_ATA_PASSTHROUGH H];
          Cdb = Cdb[1 := (if BufLen \<noteq> 0 \<and> Direction = ATA_PASSTHROUGH_DATA_OUT H
                          then 0x00 else 0x10)];
          Cdb = Cdb[3 := of_nat (drop_bit 8 BufLen)];
          Cdb = Cdb[4 := of_nat BufLen];
          Cdb = Cdb[5 := Features Command];
          Cdb = Cdb[6 := of_nat (drop_bit (SECTOR_SIZE_SHIFT_BIT H) BufLen)];
          Cdb = Cdb[7 := Lba_low Command];
          Cdb = Cdb[8 := Lba_mid Command];
          Cdb = Cdb[9 := Lba_high Command];
          Cdb = Cdb[10 := Device Command];
          Cdb = Cdb[11 := AtaCmd Command];
          Cdb = Cdb[12 := 0x06];
          Cdb = Cdb[13 := 0x7b];
          (r, w) = ScsiPassthroughDirect E H hPhysical Cdb (14 - (if prolific then 2 else 0))
                     Direction DataBuffer BufLen Timeout w
      in (r, [], w))"

definition UsbJmicronAtaPassthrough ::
  "'w env \<Rightarrow> smart_h \<Rightarrow> HANDLE \<Rightarrow> ATA_PASSTHROUGH_CMD \<Rightarrow> nat \<Rightarrow> size_t \<Rightarrow> uint32_t
     \<Rightarrow> 'w \<Rightarrow> int \<times> string list \<times> 'w" where
  "UsbJmicronAtaPassthrough E H hPhysical Command DataBuffer BufLen Timeout w =
     UsbJMPLAtaPassthrough E H hPhysical Command DataBuffer BufLen Timeout False w"

definition UsbProlificAtaPassthrough ::
  "'w env \<Rightarrow> smart_h \<Rightarrow> HANDLE \<Rightarrow> ATA_PASSTHROUGH_CMD \<Rightarrow> nat \<Rightarrow> size_t \<Rightarrow> uint32_t
     \<Rightarrow> 'w \<Rightarrow> int \<times> string list \<times> 'w" where
  "UsbProlificAtaPassthrough E H hPhysical Command DataBuffer BufLen Timeout w =
     UsbJMPLAtaPassthrough E H hPhysical Command DataBuffer BufLen Timeout True w"

definition UsbSunPlusAtaPassthrough ::
  "'w env \<Rightarrow> smart_h \<Rightarrow> HANDLE \<Rightarrow> ATA_PASSTHROUGH_CMD \<Rightarrow> nat \<Rightarrow> size_t \<Rightarrow> uint32_t
     \<Rightarrow> 'w \<Rightarrow> int \<times> string list \<times> 'w" where
  "UsbSunPlusAtaPassthrough E H hPhysical Command DataBuffer BufLen Timeout w =
     (let Cdb = replicate 12 (0::uint8_t);
          Direction = GetAtaDirection H (AtaCmd Command) (Features Command);
          Cdb = Cdb[0 := USB_SUNPLUS_ATA_PASSTHROUGH H];
          Cdb = Cdb[2 := 0x22];
          Cdb = (if BufLen \<noteq> 0
                 then (if Direction = ATA_PASSTHROUGH_DATA_IN H then Cdb[3 := 0x10]
                       else if Direction = ATA_PASSTHROUGH_DATA_OUT H then Cdb[3 := 0x11]
                       else Cdb)
                 else Cdb);
          Cdb = Cdb[4 := of_nat (drop_bit (SECTOR_SIZE_SHIFT_BIT H) BufLen)];
          Cdb = Cdb[5 := Features Command];
          Cdb = Cdb[6 := of_nat (drop_bit (SECTOR_SIZE_SHIFT_BIT H) BufLen)];
          Cdb = Cdb[7 := Lba_low Command];
          Cdb = Cdb[8 := Lba_mid Command];
          Cdb = Cdb[9 := Lba_high Command];
          Cdb = Cdb[10 := Device Command OR 0xa0];
          Cdb = Cdb[11 := AtaCmd Command];
          (r, w) = ScsiPassthroughDirect E H hPhysical Cdb 12 Direction DataBuffer BufLen
                     Timeout w
      in (r, [], w))"

definition UsbCypressAtaPassthrough ::
  "'w env \<Rightarrow> smart_h \<Rightarrow> HANDLE \<Rightarrow> ATA_PASSTHROUGH_CMD \<Rightarrow> nat \<Rightarrow> size_t \<Rightarrow> uint32_t
     \<Rightarrow> 'w \<Rightarrow> int \<times> string list \<times> 'w" where
  "UsbCypressAtaPassthrough E H hPhysical Command DataBuffer BufLen Timeout w =
     (let Cdb = replicate 16 (0::uint8_t);
          Direction = GetAtaDirection H (AtaCmd Command) (Features Command);
          Cdb = Cdb[0 := USB_CYPRESS_ATA_PASSTHROUGH H];
          Cdb = Cdb[1 := USB_CYPRESS_ATA_PASSTHROUGH H];
          Cdb = (if AtaCmd Command = ATA_IDENTIFY_DEVICE H
                    \<or> AtaCmd Command = ATA_IDENTIFY_PACKET_DEVICE H
                 then Cdb[2 := word_of_int (push_bit 7 1)] else Cdb);
          Cdb = Cdb[3 := word_of_int (0xff - push_bit 0 1 - push_bit 6 1)];
          Cdb = Cdb[4 := 1];
          Cdb = Cdb[6 := Features Command];
          Cdb = Cdb[7 := of_nat (drop_bit (SECTOR_SIZE_SHIFT_BIT H) BufLen)];
          Cdb = Cdb[8 := Lba_low Command];
          Cdb = Cdb[9 := Lba_mid Command];
          Cdb = Cdb[10 := Lba_high Command];
          Cdb = Cdb[11 := Device Command];
          Cdb = Cdb[12 := AtaCmd Command];
          (r, w) = ScsiPassthroughDirect E H hPhysical Cdb 16 Direction DataBuffer BufLen
                     Timeout w
      in (r, [], w))"

section \<open>The probe\<close>

record 'w AtaPassThroughType =
  fn :: "HANDLE \<Rightarrow> ATA_PASSTHROUGH_CMD \<Rightarrow> nat \<Rightarrow> size_t \<Rightarrow> uint32_t \<Rightarrow> 'w \<Rightarrow> int \<times> string list \<times> 'w"
  type :: string

text \<open>The various bridges, in the order in which they are tried.\<close>

definition pt :: "'w env \<Rightarrow> smart_h \<Rightarrow> 'w AtaPassThroughType list" where
  "pt E H = [
     \<lparr> fn = SatAtaPassthrough E H, type = ''SAT'' \<rparr>,
     \<lparr> fn = UsbJmicronAtaPassthrough E H, type = ''JMicron'' \<rparr>,
     \<lparr> fn = UsbProlificAtaPassthrough E H, type = ''Prolific'' \<rparr>,
     \<lparr> fn = UsbSunPlusAtaPassthrough E H, type = ''SunPlus'' \<rparr>,
     \<lparr> fn = UsbCypressAtaPassthrough E H, type = ''Cypress'' \<rparr> ]"

definition TRUE :: int where
  "TRUE = 1"

definition FALSE :: int where
  "FALSE = 0"

text \<open>\<^verbatim>\<open>sizeof(IDENTIFY_DEVICE_DATA)\<close>, which the \<^verbatim>\<open>COMPILE_TIME_ASSERT\<close> of \<^verbatim>\<open>Identify\<close> fixes.\<close>

definition sizeof_IDENTIFY_DEVICE_DATA :: size_t where
  "sizeof_IDENTIFY_DEVICE_DATA = 512"

text \<open>
  The \<^verbatim>\<open>for\<close> loop of \<^verbatim>\<open>Identify\<close>, over the entries of the table from index \<open>i\<close> on. It
  gives the value of \<open>i\<close> when the loop is left, the lines printed and the world.
\<close>

fun Identify_loop ::
  "'w env \<Rightarrow> smart_h \<Rightarrow> 'w AtaPassThroughType list \<Rightarrow> nat \<Rightarrow> HANDLE \<Rightarrow> ATA_PASSTHROUGH_CMD \<Rightarrow> nat
     \<Rightarrow> 'w \<Rightarrow> nat \<times> string list \<times> 'w" where
  "Identify_loop E H [] i hPhysical Command idd w = (i, [], w)"
| "Identify_loop E H (p # rest) i hPhysical Command idd w =
     (let (r, out, w) = fn p hPhysical Command idd sizeof_IDENTIFY_DEVICE_DATA
                          (SPT_TIMEOUT_VALUE H) w
      in if r = SPT_SUCCESS H
         then (i,
               out @ [''Success using '' @ type p @ ''\<newline>'']
                   @ (if SmartCommands E w idd
                      then DumpBufferHex E w idd sizeof_IDENTIFY_DEVICE_DATA
                             @ [''SMART support detected!\<newline>'']
                      else [''No SMART support\<newline>'']),
               w)
         else
           let line = ''No joy with: '' @ type p @ '' ('' @ SptStrerr H r @ '')\<newline>'';
               (i, out', w) = Identify_loop E H rest (i + 1) hPhysical Command idd w
           in (i, out @ [line] @ out', w))"

definition Identify :: "'w env \<Rightarrow> smart_h \<Rightarrow> HANDLE \<Rightarrow> 'w \<Rightarrow> int \<times> string list \<times> 'w" where
  "Identify E H hPhysical w =
     (let Command = \<lparr> AtaCmd = 0, Features = 0, Lba_low = 0, Lba_mid = 0, Lba_high = 0,
                      Device = 0 \<rparr>;
          Command = Command \<lparr> AtaCmd := ATA_IDENTIFY_DEVICE H \<rparr>;
          (idd, w) = aligned_malloc E sizeof_IDENTIFY_DEVICE_DATA 0x10 w
      in if idd = 0 then (FALSE, [], w)
         else
           let (i, out, w) = Identify_loop E H (pt E H) 0 hPhysical Command idd w;
               out = (if i \<ge> length (pt E H) then out @ [''NO ATA FOR YOU!\<newline>''] else out);
               w = aligned_free E idd w
           in (TRUE, out, w))"

section \<open>Two environments for evaluation\<close>

text \<open>
  The world of both is the number of requests the device has received. Behind
  \<open>jmicron_bridge\<close> is a bridge that answers the 14-byte JMicron CDB and rejects every other
  request with the SCSI status 2 (check condition), and a disk whose IDENTIFY data has
  the SMART bit set. Behind \<open>silent_device\<close> nothing answers: every request fails with the
  system error \<^verbatim>\<open>ERROR_SEM_TIMEOUT\<close>.
\<close>

definition jmicron_bridge :: "nat env" where
  "jmicron_bridge = \<lparr>
     DeviceIoControl = (\<lambda>h sptd n.
        if sptd_CdbLength sptd = 14 \<and> sptd_Cdb sptd ! 0 = 0xDF
        then ((True, 0), Suc n) else ((True, 2), Suc n)),
     GetLastError = (\<lambda>n. 0),
     aligned_malloc = (\<lambda>size alignment n. (0x1000, n)),
     aligned_free = (\<lambda>p n. n),
     SmartCommands = (\<lambda>n p. True),
     DumpBufferHex = (\<lambda>n p len. []) \<rparr>"

definition silent_device :: "nat env" where
  "silent_device = \<lparr>
     DeviceIoControl = (\<lambda>h sptd n. ((False, 0), Suc n)),
     GetLastError = (\<lambda>n. 121),
     aligned_malloc = (\<lambda>size alignment n. (0x1000, n)),
     aligned_free = (\<lambda>p n. n),
     SmartCommands = (\<lambda>n p. False),
     DumpBufferHex = (\<lambda>n p len. []) \<rparr>"

section \<open>The HDD score\<close>

subsection \<open>C strings\<close>

text \<open>
  A C string is the list of the bytes stored before its terminator; the byte at index
  \<open>length s\<close> is the terminating NUL, and an index beyond that lies outside the string's
  storage: \<open>cstr_at\<close> answers \<open>None\<close> there. \<open>strlen\<close> counts the bytes before the first
  NUL.
\<close>

definition NUL :: char where
  "NUL = CHR 0x00"

definition strlen :: "string \<Rightarrow> nat" where
  "strlen s = length (takeWhile (\<lambda>c. c \<noteq> NUL) s)"

definition cstr_at :: "string \<Rightarrow> nat \<Rightarrow> char option" where
  "cstr_at s i = (if i < length s then Some (s ! i)
                  else if i = length s then Some NUL
                  else None)"

text \<open>
  Modelled from the spec: the macro \<^verbatim>\<open>safe_strlen\<close> of \<^verbatim>\<open>rufus.h\<close>, which is not among the
  sources. The spec calls its result the input length; \<open>strid\<close> is a string, not a null
  pointer.
\<close>

definition safe_strlen :: "string \<Rightarrow> nat" where
  "safe_strlen str = strlen str"

text \<open>
  \<^verbatim>\<open>_strnicmp\<close> of the C runtime in the C locale: it compares at most \<open>n\<close> characters,
  lower-casing the ASCII capitals, and stops at the first difference or at a NUL.
\<close>

definition tolower :: "char \<Rightarrow> char" where
  "tolower c = (if (65::nat) \<le> of_char c \<and> of_char c \<le> (90::nat)
                then char_of (of_char c + (32::nat)) else c)"

fun strnicmp :: "string \<Rightarrow> string \<Rightarrow> nat \<Rightarrow> int" where
  "strnicmp s1 s2 0 = 0"
| "strnicmp s1 s2 (Suc n) =
     (let c1 = tolower (case s1 of [] \<Rightarrow> NUL | c # _ \<Rightarrow> c);
          c2 = tolower (case s2 of [] \<Rightarrow> NUL | c # _ \<Rightarrow> c)
      in if c1 \<noteq> c2 then int (of_char c1) - int (of_char c2)
         else if c1 = NUL then 0
         else strnicmp (tl s1) (tl s2) n)"

subsection \<open>The tables\<close>

record str_score =
  name :: string
  score :: int

record vid_score =
  vid :: uint16_t
  score :: int

definition manufacturer_str :: "str_score list" where
  "manufacturer_str = [
     \<lparr> name = ''HP '', str_score.score = 10 \<rparr>,
     \<lparr> name = ''ST#'', str_score.score = 10 \<rparr>,
     \<lparr> name = ''MX#'', str_score.score = 10 \<rparr>,
     \<lparr> name = ''WDC'', str_score.score = 10 \<rparr>,
     \<lparr> name = ''IBM'', str_score.score = 10 \<rparr>,
     \<lparr> name = ''STM#'', str_score.score = 10 \<rparr>,
     \<lparr> name = ''HTS#'', str_score.score = 10 \<rparr>,
     \<lparr> name = ''MAXTOR'', str_score.score = 10 \<rparr>,
     \<lparr> name = ''HITACHI'', str_score.score = 10 \<rparr>,
     \<lparr> name = ''SEAGATE'', str_score.score = 10 \<rparr>,
     \<lparr> name = ''SAMSUNG'', str_score.score = 10 \<rparr>,
     \<lparr> name = ''FUJITSU'', str_score.score = 10 \<rparr>,
     \<lparr> name = ''TOSHIBA'', str_score.score = 10 \<rparr>,
     \<lparr> name = ''QUANTUM'', str_score.score = 10 \<rparr> ]"

definition manufacturer_vid :: "vid_score list" where
  "manufacturer_vid = [
     \<lparr> vid = 0x04b4, vid_score.score = 10 \<rparr>,
     \<lparr> vid = 0x067b, vid_score.score = 10 \<rparr>,
     \<lparr> vid = 0x0bc2, vid_score.score = 10 \<rparr>,
     \<lparr> vid = 0x152d, vid_score.score = 10 \<rparr> ]"

text \<open>The drive types of \<^verbatim>\<open>GetDriveType\<close> (\<^verbatim>\<open>winbase.h\<close>).\<close>

definition DRIVE_REMOVABLE :: uint32_t where
  "DRIVE_REMOVABLE = 2"

definition DRIVE_FIXED :: uint32_t where
  "DRIVE_FIXED = 3"

subsection \<open>\<^verbatim>\<open>IsHDD\<close>\<close>

text \<open>
  The first \<^verbatim>\<open>for\<close> loop, over the entries of the table from index \<open>i\<close> on. The result is
  the score when the loop is left (by either \<^verbatim>\<open>break\<close> or at the end of the table), and
  \<open>None\<close> when an index outside a string's storage is read: \<^verbatim>\<open>name[mlen-1]\<close> for an empty
  name, or \<^verbatim>\<open>strid[mlen]\<close> behind the terminator. \<^verbatim>\<open>strid[mlen]\<close> is evaluated only when
  the comparison gave 0 and \<open>wc\<close> holds, as \<^verbatim>\<open>&&\<close> and \<^verbatim>\<open>||\<close> prescribe.
\<close>

fun IsHDD_str_loop :: "str_score list \<Rightarrow> string \<Rightarrow> nat \<Rightarrow> int \<Rightarrow> int option" where
  "IsHDD_str_loop [] strid ilen score' = Some score'"
| "IsHDD_str_loop (e # rest) strid ilen score' =
     (let mlen = strlen (name e) in
      if mlen > ilen then Some score'
      else if mlen = 0 then None
      else
        let wc = (name e ! (mlen - 1) = CHR ''#'') in
        if strnicmp strid (name e) (mlen - (if wc then 1 else 0)) = 0
        then (if \<not> wc then Some (score' + str_score.score e)
              else (case cstr_at strid mlen of
                      None \<Rightarrow> None
                    | Some c \<Rightarrow>
                        if of_char CHR ''0'' \<le> (of_char c :: nat) \<and>
                           (of_char c :: nat) \<le> of_char CHR ''9''
                        then Some (score' + str_score.score e)
                        else IsHDD_str_loop rest strid ilen score'))
        else IsHDD_str_loop rest strid ilen score')"

text \<open>The second \<^verbatim>\<open>for\<close> loop, over the vendor IDs.\<close>

fun IsHDD_vid_loop :: "vid_score list \<Rightarrow> uint16_t \<Rightarrow> int \<Rightarrow> int" where
  "IsHDD_vid_loop [] vid' score' = score'"
| "IsHDD_vid_loop (e # rest) vid' score' =
     (if vid' = vid e then score' + vid_score.score e
      else IsHDD_vid_loop rest vid' score')"

definition IsHDD :: "uint32_t \<Rightarrow> uint16_t \<Rightarrow> uint16_t \<Rightarrow> string \<Rightarrow> int option" where
  "IsHDD drive_type vid' pid strid =
     (let score' = 0;
          score' = (if drive_type = DRIVE_FIXED then score' + 3 else score');
          ilen = safe_strlen strid
      in case IsHDD_str_loop manufacturer_str strid ilen score' of
           None \<Rightarrow> None
         | Some score' \<Rightarrow> Some (IsHDD_vid_loop manufacturer_vid vid' score'))"

subsection \<open>The manufacturer match as the specification words it\<close>

text \<open>
  A literal entry matches a string that starts with it, case ignored. An entry that ends
  in \<^verbatim>\<open>#\<close> matches a string that starts, case ignored, with the entry's literal part,
  followed immediately by an ASCII digit. The bonus is due when some entry of the table
  matches.
\<close>

definition is_ascii_digit :: "char \<Rightarrow> bool" where
  "is_ascii_digit c = ((48::nat) \<le> of_char c \<and> of_char c \<le> (57::nat))"

definition starts_with_nocase :: "string \<Rightarrow> string \<Rightarrow> bool" where
  "starts_with_nocase s p =
     (length p \<le> length s \<and> map tolower (take (length p) s) = map tolower p)"

definition entry_matches_spec :: "string \<Rightarrow> string \<Rightarrow> bool" where
  "entry_matches_spec nm s =
     (if nm \<noteq> [] \<and> last nm = CHR ''#''
      then starts_with_nocase s (butlast nm) \<and>
           (case drop (length (butlast nm)) s of [] \<Rightarrow> False | c # _ \<Rightarrow> is_ascii_digit c)
      else starts_with_nocase s nm)"

definition bonus_spec :: "string \<Rightarrow> bool" where
  "bonus_spec s = list_ex (\<lambda>e. entry_matches_spec (name e) s) manufacturer_str"

section \<open>Notions used to state the properties\<close>

text \<open>
  The request that \<^verbatim>\<open>ScsiPassthroughDirect\<close> builds from arguments that passed its checks
  (the buffer length then fits the 16 bits of the cast).
\<close>

definition spt_request ::
  "smart_h \<Rightarrow> uint8_t list \<Rightarrow> size_t \<Rightarrow> uint8_t \<Rightarrow> nat \<Rightarrow> size_t \<Rightarrow> uint32_t
     \<Rightarrow> SCSI_PASS_THROUGH_DIRECT" where
  "spt_request H Cdb CdbLen Direction DataBuffer BufLen Timeout =
     \<lparr> sptd_PathId = 0, sptd_TargetId = 0, sptd_Lun = 0,
       sptd_CdbLength = of_nat CdbLen, sptd_DataIn = Direction,
       sptd_SenseInfoLength = SPT_SENSE_LENGTH H,
       sptd_DataTransferLength = of_nat BufLen,
       sptd_TimeOutValue = Timeout, sptd_DataBuffer = DataBuffer,
       sptd_Cdb = take CdbLen Cdb @ replicate (16 - CdbLen) 0 \<rparr>"

text \<open>
  The codes of the five sanity checks, and the codes that \<^verbatim>\<open>ScsiPassthroughDirect\<close> can
  return after the request was submitted, a SCSI status apart.
\<close>

definition spt_validation_errors :: "smart_h \<Rightarrow> int list" where
  "spt_validation_errors H =
     [SPT_ERROR_CDB_LENGTH H, SPT_ERROR_BUFFER H, SPT_ERROR_DIRECTION H,
      SPT_ERROR_EXTENDED_CDB H, SPT_ERROR_CDB_OPCODE H]"

definition spt_io_results :: "smart_h \<Rightarrow> int list" where
  "spt_io_results H =
     [SPT_SUCCESS H, SPT_ERROR_TIMEOUT H, SPT_ERROR_INVALID_PARAMETER H,
      SPT_ERROR_UNKNOWN_ERROR H]"

text \<open>
  The outcome of every encoder of a table when each is called once, in table order, on
  the world that its predecessor left. This is the reference against which the probe of
  \<^verbatim>\<open>Identify\<close>, which stops at the first success, is described.
\<close>

fun attempts ::
  "'w AtaPassThroughType list \<Rightarrow> HANDLE \<Rightarrow> ATA_PASSTHROUGH_CMD \<Rightarrow> nat \<Rightarrow> size_t \<Rightarrow> uint32_t \<Rightarrow> 'w
     \<Rightarrow> (int \<times> string list \<times> 'w) list" where
  "attempts [] hPhysical Command DataBuffer BufLen Timeout w = []"
| "attempts (p # rest) hPhysical Command DataBuffer BufLen Timeout w =
     (case fn p hPhysical Command DataBuffer BufLen Timeout w of
        (r, out, w') \<Rightarrow>
          (r, out, w') # attempts rest hPhysical Command DataBuffer BufLen Timeout w')"

definition Identify_Command :: "smart_h \<Rightarrow> ATA_PASSTHROUGH_CMD" where
  "Identify_Command H =
     \<lparr> AtaCmd = ATA_IDENTIFY_DEVICE H, Features = 0, Lba_low = 0, Lba_mid = 0, Lba_high = 0,
       Device = 0 \<rparr>"

definition Identify_attempts ::
  "'w env \<Rightarrow> smart_h \<Rightarrow> HANDLE \<Rightarrow> nat \<Rightarrow> 'w \<Rightarrow> (int \<times> string list \<times> 'w) list" where
  "Identify_attempts E H hPhysical idd w =
     attempts (pt E H) hPhysical (Identify_Command H) idd sizeof_IDENTIFY_DEVICE_DATA
       (SPT_TIMEOUT_VALUE H) w"

definition first_success :: "smart_h \<Rightarrow> (int \<times> string list \<times> 'w) list \<Rightarrow> nat \<Rightarrow> bool" where
  "first_success H A k =
     (k < length A \<and> fst (A ! k) = SPT_SUCCESS H
      \<and> list_all (\<lambda>a. fst a \<noteq> SPT_SUCCESS H) (take k A))"

definition all_failed :: "smart_h \<Rightarrow> (int \<times> string list \<times> 'w) list \<Rightarrow> bool" where
  "all_failed H A = list_all (\<lambda>a. fst a \<noteq> SPT_SUCCESS H) A"

text \<open>The lines of \<^verbatim>\<open>Identify\<close>: for a failed attempt, and about the SMART bit.\<close>

definition no_joy :: "smart_h \<Rightarrow> 'w AtaPassThroughType \<Rightarrow> int \<Rightarrow> string" where
  "no_joy H p r = ''No joy with: '' @ type p @ '' ('' @ SptStrerr H r @ '')\<newline>''"

definition smart_report :: "'w env \<Rightarrow> 'w \<Rightarrow> nat \<Rightarrow> string list" where
  "smart_report E w idd =
     (if SmartCommands E w idd
      then DumpBufferHex E w idd sizeof_IDENTIFY_DEVICE_DATA @ [''SMART support detected!\<newline>'']
      else [''No SMART support\<newline>''])"

section \<open>Properties of the direction resolver\<close>

text \<open>
  Claim C7. With the four case labels of the \<^verbatim>\<open>switch\<close> pairwise different (C rejects a
  duplicate label), the resolver gives DataOut for SMART with the Features value
  SMART_STATUS or SMART_WRITE_LOG_SECTOR and DataIn for SMART with any other Features
  value; DataOut for DATA_SET_MANAGEMENT; DataIn for IDENTIFY_DEVICE and READ_LOG_EXT;
  None for every opcode that is none of these four. It is total: every input yields one
  of the three direction codes.
\<close>

theorem GetAtaDirection_table:
  assumes "distinct [ATA_IDENTIFY_DEVICE H, ATA_READ_LOG_EXT H, ATA_SMART_CMD H,
                     ATA_DATA_SET_MANAGEMENT H]"
  shows "GetAtaDirection H (ATA_SMART_CMD H) (ATA_SMART_STATUS H) = ATA_PASSTHROUGH_DATA_OUT H
       \<and> GetAtaDirection H (ATA_SMART_CMD H) (ATA_SMART_WRITE_LOG_SECTOR H)
           = ATA_PASSTHROUGH_DATA_OUT H
       \<and> (f \<noteq> ATA_SMART_STATUS H \<and> f \<noteq> ATA_SMART_WRITE_LOG_SECTOR H \<longrightarrow>
            GetAtaDirection H (ATA_SMART_CMD H) f = ATA_PASSTHROUGH_DATA_IN H)
       \<and> GetAtaDirection H (ATA_DATA_SET_MANAGEMENT H) f = ATA_PASSTHROUGH_DATA_OUT H
       \<and> GetAtaDirection H (ATA_IDENTIFY_DEVICE H) f = ATA_PASSTHROUGH_DATA_IN H
       \<and> GetAtaDirection H (ATA_READ_LOG_EXT H) f = ATA_PASSTHROUGH_DATA_IN H
       \<and> (op \<notin> {ATA_IDENTIFY_DEVICE H, ATA_READ_LOG_EXT H, ATA_SMART_CMD H,
                 ATA_DATA_SET_MANAGEMENT H} \<longrightarrow>
            GetAtaDirection H op f = ATA_PASSTHROUGH_DATA_NONE H)
       \<and> GetAtaDirection H op f \<in> {ATA_PASSTHROUGH_DATA_IN H, ATA_PASSTHROUGH_DATA_OUT H,
                                     ATA_PASSTHROUGH_DATA_NONE H}"
  using assms by (auto simp: GetAtaDirection_def)

theorem GetAtaDirection_table_witness:
  "distinct [ATA_IDENTIFY_DEVICE rufus_smart_h, ATA_READ_LOG_EXT rufus_smart_h,
             ATA_SMART_CMD rufus_smart_h, ATA_DATA_SET_MANAGEMENT rufus_smart_h]
   \<and> (0xD0::uint8_t) \<noteq> ATA_SMART_STATUS rufus_smart_h
   \<and> (0xD0::uint8_t) \<noteq> ATA_SMART_WRITE_LOG_SECTOR rufus_smart_h
   \<and> (0xE5::uint8_t) \<notin> {ATA_IDENTIFY_DEVICE rufus_smart_h, ATA_READ_LOG_EXT rufus_smart_h,
             ATA_SMART_CMD rufus_smart_h, ATA_DATA_SET_MANAGEMENT rufus_smart_h}
   \<and> GetAtaDirection rufus_smart_h 0xB0 0xDA = 0
   \<and> GetAtaDirection rufus_smart_h 0xB0 0xD6 = 0
   \<and> GetAtaDirection rufus_smart_h 0xB0 0xD0 = 1
   \<and> GetAtaDirection rufus_smart_h 0x06 0xD0 = 0
   \<and> GetAtaDirection rufus_smart_h 0xEC 0xD0 = 1
   \<and> GetAtaDirection rufus_smart_h 0x2F 0xD0 = 1
   \<and> GetAtaDirection rufus_smart_h 0xE5 0xD0 = 2"
  using GetAtaDirection_table [of rufus_smart_h "0xD0" "0xE5"]
  by (simp add: rufus_smart_h_def)

text \<open>
  The \<^verbatim>\<open>switch\<close> has no label for IDENTIFY_PACKET_DEVICE (the function's comment: far from
  complete, only the commands that may be used). With the ATA command codes, where
  IDENTIFY PACKET DEVICE is 0xA1, the resolver does not answer DataIn for it.
\<close>

theorem GetAtaDirection_identify_packet_counterexample:
  "GetAtaDirection rufus_smart_h (ATA_IDENTIFY_PACKET_DEVICE rufus_smart_h) 0
     \<noteq> ATA_PASSTHROUGH_DATA_IN rufus_smart_h"
  by (simp add: GetAtaDirection_def rufus_smart_h_def)

text \<open>
  Claim C3, amended. For every Features sub-code \<open>f\<close>, the resolver returns None for the
  IDENTIFY_PACKET_DEVICE opcode, whenever that opcode is none of the four labels of the
  \<^verbatim>\<open>switch\<close> (IDENTIFY_DEVICE, READ_LOG_EXT, SMART, DATA_SET_MANAGEMENT).
\<close>

theorem GetAtaDirection_identify_packet:
  "ATA_IDENTIFY_PACKET_DEVICE H \<notin> {ATA_IDENTIFY_DEVICE H, ATA_READ_LOG_EXT H, ATA_SMART_CMD H,
                                    ATA_DATA_SET_MANAGEMENT H}
   \<Longrightarrow> GetAtaDirection H (ATA_IDENTIFY_PACKET_DEVICE H) f = ATA_PASSTHROUGH_DATA_NONE H"
  by (simp add: GetAtaDirection_def)

theorem GetAtaDirection_identify_packet_witness:
  "ATA_IDENTIFY_PACKET_DEVICE rufus_smart_h \<notin>
      {ATA_IDENTIFY_DEVICE rufus_smart_h, ATA_READ_LOG_EXT rufus_smart_h,
       ATA_SMART_CMD rufus_smart_h, ATA_DATA_SET_MANAGEMENT rufus_smart_h}
   \<and> GetAtaDirection rufus_smart_h 0xA1 0 = 2"
  using GetAtaDirection_identify_packet [of rufus_smart_h 0]
  by (simp add: rufus_smart_h_def)

section \<open>Properties of the transport\<close>

lemma direction_range:
  "(Direction > SCSI_IOCTL_DATA_UNSPECIFIED) =
   (Direction \<notin> {SCSI_IOCTL_DATA_OUT, SCSI_IOCTL_DATA_IN, SCSI_IOCTL_DATA_UNSPECIFIED})"
proof -
  have "(2 < unat Direction) = (unat Direction \<noteq> 0 \<and> unat Direction \<noteq> 1 \<and> unat Direction \<noteq> 2)"
    by arith
  then show ?thesis
    unfolding SCSI_IOCTL_DATA_OUT_def SCSI_IOCTL_DATA_IN_def SCSI_IOCTL_DATA_UNSPECIFIED_def
    by (simp add: word_less_nat_alt word_unat_eq_iff)
qed

lemma ucast_uint16_BufLen:
  "BufLen \<le> 65535 \<Longrightarrow> (ucast (of_nat BufLen :: uint16_t) :: uint32_t) = of_nat BufLen"
  by (simp add: unsigned_of_nat take_bit_nat_eq_self)

text \<open>Arguments that pass the five checks are submitted, and the answer is mapped.\<close>

lemma ScsiPassthroughDirect_submit:
  assumes "0 < CdbLen" "CdbLen \<le> 16" "DataBuffer mod 16 = 0" "BufLen \<le> 65535"
    and "\<not> Direction > SCSI_IOCTL_DATA_UNSPECIFIED"
    and "Cdb ! 0 \<noteq> 0x7e" "Cdb ! 0 \<noteq> 0x7f"
    and "Cdb ! 0 < 0xc0 \<or> Cdb ! 0 = USB_JMICRON_ATA_PASSTHROUGH H
           \<or> Cdb ! 0 = USB_SUNPLUS_ATA_PASSTHROUGH H"
  shows "ScsiPassthroughDirect E H hPhysical Cdb CdbLen Direction DataBuffer BufLen Timeout w =
     (case DeviceIoControl E hPhysical
             (spt_request H Cdb CdbLen Direction DataBuffer BufLen Timeout) w of
        ((r, ScsiStatus), w') \<Rightarrow>
          (if r \<and> ScsiStatus = 0 then SPT_SUCCESS H
           else if ScsiStatus \<noteq> 0 then uint ScsiStatus
           else if GetLastError E w' = ERROR_SEM_TIMEOUT then SPT_ERROR_TIMEOUT H
           else if GetLastError E w' = ERROR_INVALID_PARAMETER then SPT_ERROR_INVALID_PARAMETER H
           else SPT_ERROR_UNKNOWN_ERROR H, w'))"
proof -
  have opc: "\<not> (Cdb ! 0 \<ge> 0xc0 \<and> Cdb ! 0 \<noteq> USB_JMICRON_ATA_PASSTHROUGH H
              \<and> Cdb ! 0 \<noteq> USB_SUNPLUS_ATA_PASSTHROUGH H)"
    using assms(8) by (auto simp: not_le)
  have len: "\<not> (CdbLen = 0 \<or> CdbLen > sizeof_sptd_Cdb)"
    using assms(1,2) by (simp add: sizeof_sptd_Cdb_def)
  have buf: "\<not> (DataBuffer mod 0x10 \<noteq> 0 \<or> BufLen > 0xFFFF)"
    using assms(3,4) by simp
  have ext: "\<not> (Cdb ! 0 = 0x7e \<or> Cdb ! 0 = 0x7f)"
    using assms(6,7) by simp
  show ?thesis
    unfolding ScsiPassthroughDirect_def
    by (simp only: len buf assms(5) ext opc if_False)
       (simp add: spt_request_def sizeof_sptd_Cdb_def Let_def ucast_uint16_BufLen [OF assms(4)]
          split: prod.splits)
qed

lemma ScsiPassthroughDirect_submit_result:
  assumes "0 < CdbLen" "CdbLen \<le> 16" "DataBuffer mod 16 = 0" "BufLen \<le> 65535"
    and "\<not> Direction > SCSI_IOCTL_DATA_UNSPECIFIED"
    and "Cdb ! 0 \<noteq> 0x7e" "Cdb ! 0 \<noteq> 0x7f"
    and "Cdb ! 0 < 0xc0 \<or> Cdb ! 0 = USB_JMICRON_ATA_PASSTHROUGH H
           \<or> Cdb ! 0 = USB_SUNPLUS_ATA_PASSTHROUGH H"
  shows "snd (ScsiPassthroughDirect E H hPhysical Cdb CdbLen Direction DataBuffer BufLen Timeout w)
           = snd (DeviceIoControl E hPhysical
                   (spt_request H Cdb CdbLen Direction DataBuffer BufLen Timeout) w)"
    and "fst (ScsiPassthroughDirect E H hPhysical Cdb CdbLen Direction DataBuffer BufLen Timeout w)
           \<in> set (spt_io_results H) \<union> {1..255}"
proof -
  note eq = ScsiPassthroughDirect_submit [OF assms, of E hPhysical Timeout w]
  show "snd (ScsiPassthroughDirect E H hPhysical Cdb CdbLen Direction DataBuffer BufLen Timeout w)
           = snd (DeviceIoControl E hPhysical
                   (spt_request H Cdb CdbLen Direction DataBuffer BufLen Timeout) w)"
    by (simp add: eq split: prod.splits)
  have st: "1 \<le> uint s \<and> uint s \<le> 255" if "s \<noteq> 0" for s :: uint8_t
  proof -
    have "uint s \<noteq> 0" using that by (simp add: uint_0_iff)
    moreover have "0 \<le> uint s" by (rule uint_ge_0)
    moreover have "uint s < 256" using uint_bounded [of s] by simp
    ultimately show ?thesis by linarith
  qed
  show "fst (ScsiPassthroughDirect E H hPhysical Cdb CdbLen Direction DataBuffer BufLen Timeout w)
           \<in> set (spt_io_results H) \<union> {1..255}"
    using st by (auto simp: eq spt_io_results_def split: prod.splits)
qed

text \<open>
  Claim C5. Let the result codes of the header be pairwise different and the codes of the
  five checks negative (the comment above the function: 0 on success, a positive SCSI
  status, negative otherwise). Then \<^verbatim>\<open>ScsiPassthroughDirect\<close> checks in this order, and
  each code tells which check failed: it returns the CDB-length error exactly when the
  CDB length is 0 or above 16; otherwise the buffer error exactly when the buffer address
  is no multiple of 16 or the buffer length exceeds 65535; otherwise the direction error
  exactly when the direction is none of the three recognised values; otherwise the
  extended-CDB error exactly when the opcode is 0x7E or 0x7F; otherwise the opcode error
  exactly when the opcode is at least 0xC0 and neither the JMicron nor the SunPlus
  opcode. With any of these five codes the world is untouched: no I/O took place. In
  every other case, so also for the two vendor opcodes, the request is submitted: the
  world after the call is the one \<open>DeviceIoControl\<close> leaves for that request.
\<close>

theorem ScsiPassthroughDirect_validation:
  assumes codes: "distinct (spt_validation_errors H @ spt_io_results H)"
      and neg: "list_all (\<lambda>c. c < 0) (spt_validation_errors H)"
  shows
   "let R = ScsiPassthroughDirect E H hPhysical Cdb CdbLen Direction DataBuffer BufLen Timeout w;
        directions = {SCSI_IOCTL_DATA_OUT, SCSI_IOCTL_DATA_IN, SCSI_IOCTL_DATA_UNSPECIFIED}
    in (fst R = SPT_ERROR_CDB_LENGTH H \<longleftrightarrow> CdbLen = 0 \<or> CdbLen > 16)
     \<and> (fst R = SPT_ERROR_BUFFER H \<longleftrightarrow>
          0 < CdbLen \<and> CdbLen \<le> 16 \<and> (DataBuffer mod 16 \<noteq> 0 \<or> BufLen > 65535))
     \<and> (fst R = SPT_ERROR_DIRECTION H \<longleftrightarrow>
          0 < CdbLen \<and> CdbLen \<le> 16 \<and> DataBuffer mod 16 = 0 \<and> BufLen \<le> 65535
          \<and> Direction \<notin> directions)
     \<and> (fst R = SPT_ERROR_EXTENDED_CDB H \<longleftrightarrow>
          0 < CdbLen \<and> CdbLen \<le> 16 \<and> DataBuffer mod 16 = 0 \<and> BufLen \<le> 65535
          \<and> Direction \<in> directions \<and> (Cdb ! 0 = 0x7e \<or> Cdb ! 0 = 0x7f))
     \<and> (fst R = SPT_ERROR_CDB_OPCODE H \<longleftrightarrow>
          0 < CdbLen \<and> CdbLen \<le> 16 \<and> DataBuffer mod 16 = 0 \<and> BufLen \<le> 65535
          \<and> Direction \<in> directions \<and> Cdb ! 0 \<noteq> 0x7e \<and> Cdb ! 0 \<noteq> 0x7f
          \<and> Cdb ! 0 \<ge> 0xc0 \<and> Cdb ! 0 \<noteq> USB_JMICRON_ATA_PASSTHROUGH H
          \<and> Cdb ! 0 \<noteq> USB_SUNPLUS_ATA_PASSTHROUGH H)
     \<and> (fst R \<in> set (spt_validation_errors H) \<longrightarrow> snd R = w)
     \<and> (fst R \<notin> set (spt_validation_errors H) \<longrightarrow>
          snd R = snd (DeviceIoControl E hPhysical
                        (spt_request H Cdb CdbLen Direction DataBuffer BufLen Timeout) w))"
proof -
  define R where R: "R = ScsiPassthroughDirect E H hPhysical Cdb CdbLen Direction DataBuffer
                           BufLen Timeout w"
  let ?dirs = "{SCSI_IOCTL_DATA_OUT, SCSI_IOCTL_DATA_IN, SCSI_IOCTL_DATA_UNSPECIFIED}"
  from neg have neg': "\<forall>c \<in> set (spt_validation_errors H). c < 0"
    by (simp add: list_all_iff)
  have main:
    "(fst R = SPT_ERROR_CDB_LENGTH H \<longleftrightarrow> CdbLen = 0 \<or> CdbLen > 16)
     \<and> (fst R = SPT_ERROR_BUFFER H \<longleftrightarrow>
          0 < CdbLen \<and> CdbLen \<le> 16 \<and> (DataBuffer mod 16 \<noteq> 0 \<or> BufLen > 65535))
     \<and> (fst R = SPT_ERROR_DIRECTION H \<longleftrightarrow>
          0 < CdbLen \<and> CdbLen \<le> 16 \<and> DataBuffer mod 16 = 0 \<and> BufLen \<le> 65535
          \<and> Direction \<notin> ?dirs)
     \<and> (fst R = SPT_ERROR_EXTENDED_CDB H \<longleftrightarrow>
          0 < CdbLen \<and> CdbLen \<le> 16 \<and> DataBuffer mod 16 = 0 \<and> BufLen \<le> 65535
          \<and> Direction \<in> ?dirs \<and> (Cdb ! 0 = 0x7e \<or> Cdb ! 0 = 0x7f))
     \<and> (fst R = SPT_ERROR_CDB_OPCODE H \<longleftrightarrow>
          0 < CdbLen \<and> CdbLen \<le> 16 \<and> DataBuffer mod 16 = 0 \<and> BufLen \<le> 65535
          \<and> Direction \<in> ?dirs \<and> Cdb ! 0 \<noteq> 0x7e \<and> Cdb ! 0 \<noteq> 0x7f
          \<and> Cdb ! 0 \<ge> 0xc0 \<and> Cdb ! 0 \<noteq> USB_JMICRON_ATA_PASSTHROUGH H
          \<and> Cdb ! 0 \<noteq> USB_SUNPLUS_ATA_PASSTHROUGH H)
     \<and> (fst R \<in> set (spt_validation_errors H) \<longrightarrow> snd R = w)
     \<and> (fst R \<notin> set (spt_validation_errors H) \<longrightarrow>
          snd R = snd (DeviceIoControl E hPhysical
                        (spt_request H Cdb CdbLen Direction DataBuffer BufLen Timeout) w))"
  proof -
    consider
        (len) "CdbLen = 0 \<or> CdbLen > 16"
      | (buf) "0 < CdbLen" "CdbLen \<le> 16" "DataBuffer mod 16 \<noteq> 0 \<or> BufLen > 65535"
      | (dir) "0 < CdbLen" "CdbLen \<le> 16" "DataBuffer mod 16 = 0" "BufLen \<le> 65535"
              "Direction \<notin> ?dirs"
      | (ext) "0 < CdbLen" "CdbLen \<le> 16" "DataBuffer mod 16 = 0" "BufLen \<le> 65535"
              "Direction \<in> ?dirs" "Cdb ! 0 = 0x7e \<or> Cdb ! 0 = 0x7f"
      | (opc) "0 < CdbLen" "CdbLen \<le> 16" "DataBuffer mod 16 = 0" "BufLen \<le> 65535"
              "Direction \<in> ?dirs" "Cdb ! 0 \<noteq> 0x7e" "Cdb ! 0 \<noteq> 0x7f"
              "Cdb ! 0 \<ge> 0xc0" "Cdb ! 0 \<noteq> USB_JMICRON_ATA_PASSTHROUGH H"
              "Cdb ! 0 \<noteq> USB_SUNPLUS_ATA_PASSTHROUGH H"
      | (ok) "0 < CdbLen" "CdbLen \<le> 16" "DataBuffer mod 16 = 0" "BufLen \<le> 65535"
              "Direction \<in> ?dirs" "Cdb ! 0 \<noteq> 0x7e" "Cdb ! 0 \<noteq> 0x7f"
              "Cdb ! 0 < 0xc0 \<or> Cdb ! 0 = USB_JMICRON_ATA_PASSTHROUGH H
                 \<or> Cdb ! 0 = USB_SUNPLUS_ATA_PASSTHROUGH H"
      by (cases "CdbLen = 0 \<or> CdbLen > 16"; cases "DataBuffer mod 16 = 0";
          cases "BufLen \<le> 65535"; cases "Direction \<in> ?dirs";
          cases "Cdb ! 0 = 0x7e \<or> Cdb ! 0 = 0x7f"; cases "Cdb ! 0 < 0xc0";
          force simp: not_less)
    then show ?thesis
    proof cases
      case len
      then have "R = (SPT_ERROR_CDB_LENGTH H, w)"
        by (auto simp: R ScsiPassthroughDirect_def sizeof_sptd_Cdb_def)
      with len codes show ?thesis
        by (auto simp: spt_validation_errors_def spt_io_results_def)
    next
      case buf
      then have "R = (SPT_ERROR_BUFFER H, w)"
        by (auto simp: R ScsiPassthroughDirect_def sizeof_sptd_Cdb_def)
      with buf codes show ?thesis
        by (auto simp: spt_validation_errors_def spt_io_results_def)
    next
      case dir
      then have "R = (SPT_ERROR_DIRECTION H, w)"
        by (simp add: R ScsiPassthroughDirect_def sizeof_sptd_Cdb_def direction_range)
      with dir codes show ?thesis
        by (auto simp: spt_validation_errors_def spt_io_results_def)
    next
      case ext
      then have "R = (SPT_ERROR_EXTENDED_CDB H, w)"
        by (simp add: R ScsiPassthroughDirect_def sizeof_sptd_Cdb_def direction_range)
      with ext codes show ?thesis
        by (auto simp: spt_validation_errors_def spt_io_results_def)
    next
      case opc
      then have "R = (SPT_ERROR_CDB_OPCODE H, w)"
        by (simp add: R ScsiPassthroughDirect_def sizeof_sptd_Cdb_def direction_range)
      with opc codes show ?thesis
        by (auto simp: spt_validation_errors_def spt_io_results_def)
    next
      case ok
      from ok(5) have d: "\<not> Direction > SCSI_IOCTL_DATA_UNSPECIFIED"
        by (simp add: direction_range)
      note sub = ScsiPassthroughDirect_submit_result
                   [OF ok(1-4) d ok(6-8), of E hPhysical Timeout w, folded R]
      from sub(2) codes neg' have nv: "fst R \<notin> set (spt_validation_errors H)"
        by (auto simp: spt_validation_errors_def spt_io_results_def)
      with ok sub(1) show ?thesis
        by (auto simp: spt_validation_errors_def)
    qed
  qed
  then show ?thesis
    unfolding Let_def R .
qed

theorem ScsiPassthroughDirect_validation_witness:
  "distinct (spt_validation_errors rufus_smart_h @ spt_io_results rufus_smart_h)
   \<and> list_all (\<lambda>c. c < 0) (spt_validation_errors rufus_smart_h)
   \<and> ScsiPassthroughDirect jmicron_bridge rufus_smart_h 7 [0xA1] 0 1 0x1000 512 2 0 = (- 1, 0)
   \<and> ScsiPassthroughDirect jmicron_bridge rufus_smart_h 7 [0xA1] 17 1 0x1001 70000 2 0 = (- 1, 0)
   \<and> ScsiPassthroughDirect jmicron_bridge rufus_smart_h 7 [0xA1] 1 3 0x1001 512 2 0 = (- 2, 0)
   \<and> ScsiPassthroughDirect jmicron_bridge rufus_smart_h 7 [0x7E] 1 3 0x1000 65536 2 0 = (- 2, 0)
   \<and> ScsiPassthroughDirect jmicron_bridge rufus_smart_h 7 [0x7E] 1 3 0x1000 512 2 0 = (- 3, 0)
   \<and> ScsiPassthroughDirect jmicron_bridge rufus_smart_h 7 [0x7E] 1 1 0x1000 512 2 0 = (- 4, 0)
   \<and> ScsiPassthroughDirect jmicron_bridge rufus_smart_h 7 [0x7F] 1 1 0x1000 512 2 0 = (- 4, 0)
   \<and> ScsiPassthroughDirect jmicron_bridge rufus_smart_h 7 [0xC1] 1 1 0x1000 512 2 0 = (- 5, 0)
   \<and> ScsiPassthroughDirect jmicron_bridge rufus_smart_h 7 [0xF8] 1 1 0x1000 512 2 0 = (2, 1)
   \<and> ScsiPassthroughDirect jmicron_bridge rufus_smart_h 7
        [0xDF, 0, 0, 0, 0, 0, 0, 0, 0, 0, 0, 0, 0, 0] 14 1 0x1000 512 2 0 = (0, 1)"
  using ScsiPassthroughDirect_validation
          [of rufus_smart_h jmicron_bridge 7 "[0xA1]" 0 1 "0x1000" 512 2 0]
        ScsiPassthroughDirect_validation
          [of rufus_smart_h jmicron_bridge 7 "[0x7E]" 1 3 "0x1000" 65536 2 0]
        ScsiPassthroughDirect_validation
          [of rufus_smart_h jmicron_bridge 7 "[0xC1]" 1 1 "0x1000" 512 2 0]
        ScsiPassthroughDirect_validation
          [of rufus_smart_h jmicron_bridge 7 "[0xF8]" 1 1 "0x1000" 512 2 0]
  by (simp add: spt_validation_errors_def spt_io_results_def rufus_smart_h_def
        ScsiPassthroughDirect_def jmicron_bridge_def sizeof_sptd_Cdb_def
        SCSI_IOCTL_DATA_UNSPECIFIED_def)

section \<open>Properties of the encoders\<close>

lemma replicate_2: "replicate 2 x = [x, x]"
  by (simp add: numeral_eq_Suc)

lemma replicate_4: "replicate 4 x = [x, x, x, x]"
  by (simp add: numeral_eq_Suc)

lemma replicate_12: "replicate 12 x = [x, x, x, x, x, x, x, x, x, x, x, x]"
  by (simp add: numeral_eq_Suc)

lemma replicate_14: "replicate 14 x = [x, x, x, x, x, x, x, x, x, x, x, x, x, x]"
  by (simp add: numeral_eq_Suc)

text \<open>A buffer that the transport accepts has fewer than 256 sectors.\<close>

lemma sector_count_byte:
  "BufLen \<le> 65535 \<Longrightarrow> unat (of_nat (BufLen div 512) :: uint8_t) = BufLen div 512"
  by (simp add: unat_of_nat take_bit_nat_eq_self_iff)

lemma length_bytes:
  "unat (of_nat (BufLen div 256) :: uint8_t) * 256 + unat (of_nat BufLen :: uint8_t)
     = BufLen mod 65536"
proof -
  have "BufLen mod (256 * 256) = 256 * (BufLen div 256 mod 256) + BufLen mod 256"
    by (rule mod_mult2_eq)
  then show ?thesis
    by (simp add: unat_of_nat take_bit_eq_mod)
qed

text \<open>
  Claim C6. Let the three direction codes be pairwise different (they are the labels of
  the \<^verbatim>\<open>switch\<close>) and the sector shift be 9. When the buffer length is no multiple of 512,
  \<^verbatim>\<open>SatAtaPassthrough\<close> returns the buffer error and leaves the world as it was: no I/O.
  Otherwise it hands to \<^verbatim>\<open>ScsiPassthroughDirect\<close>, with length 12, the CDB whose byte 0
  is the SAT opcode, whose byte 1 holds the protocol shifted left by one: 4 for a data-in
  transfer, 5 for a data-out transfer, 3 when no data is transferred (an empty buffer or
  a command without data); whose byte 2 holds the transfer-length specifier in its two
  low bits: 2 (the length is in the sector-count field) when data is transferred, else
  0; whose byte 3 is Features, byte 4 the sector count, which is the buffer length
  divided by 512 as a byte (and that quotient itself for every length up to 65535, the
  most the transport accepts), bytes 5 to 7 the three LBA bytes, byte 8 the device byte
  and byte 9 the ATA opcode.
\<close>

theorem SatAtaPassthrough_cdb:
  assumes "distinct [ATA_PASSTHROUGH_DATA_NONE H, ATA_PASSTHROUGH_DATA_IN H,
                     ATA_PASSTHROUGH_DATA_OUT H]"
      and "SECTOR_SIZE_SHIFT_BIT H = 9"
  shows
   "(BufLen mod 512 \<noteq> 0 \<longrightarrow>
       fst (SatAtaPassthrough E H hPhysical Command DataBuffer BufLen Timeout w)
         = SPT_ERROR_BUFFER H
       \<and> snd (snd (SatAtaPassthrough E H hPhysical Command DataBuffer BufLen Timeout w)) = w)
    \<and> (BufLen mod 512 = 0 \<longrightarrow>
         (let Direction = GetAtaDirection H (AtaCmd Command) (Features Command);
              data_in = (BufLen \<noteq> 0 \<and> Direction = ATA_PASSTHROUGH_DATA_IN H);
              data_out = (BufLen \<noteq> 0 \<and> Direction = ATA_PASSTHROUGH_DATA_OUT H);
              protocol = (if data_in then 4 else if data_out then 5 else 3);
              t_length = (if data_in \<or> data_out then 2 else 0);
              t_dir = (if data_out then 0 else 1);
              Cdb = [SAT_ATA_PASSTHROUGH_12 H,
                     push_bit 1 protocol,
                     push_bit 3 t_dir OR push_bit 2 1 OR t_length,
                     Features Command,
                     of_nat (BufLen div 512),
                     Lba_low Command, Lba_mid Command, Lba_high Command,
                     Device Command,
                     AtaCmd Command,
                     0, 0]
          in SatAtaPassthrough E H hPhysical Command DataBuffer BufLen Timeout w
               = (case ScsiPassthroughDirect E H hPhysical Cdb 12 Direction DataBuffer BufLen
                         Timeout w of
                    (r, w') \<Rightarrow> (r, [], w'))
             \<and> (BufLen \<le> 65535 \<longrightarrow> unat (Cdb ! 4) = BufLen div 512)))"
  using assms
  by (auto simp: SatAtaPassthrough_def Let_def replicate_12 drop_bit_eq_div sector_count_byte
           split: prod.splits)

theorem SatAtaPassthrough_cdb_witness:
  "distinct [ATA_PASSTHROUGH_DATA_NONE rufus_smart_h, ATA_PASSTHROUGH_DATA_IN rufus_smart_h,
             ATA_PASSTHROUGH_DATA_OUT rufus_smart_h]
   \<and> SECTOR_SIZE_SHIFT_BIT rufus_smart_h = 9
   \<and> (100::nat) mod 512 \<noteq> 0 \<and> (512::nat) mod 512 = 0 \<and> (512::nat) \<le> 65535
   \<and> fst (SatAtaPassthrough jmicron_bridge rufus_smart_h 7 (Identify_Command rufus_smart_h)
             0x1000 100 2 0) = - 2
   \<and> snd (snd (SatAtaPassthrough jmicron_bridge rufus_smart_h 7
                  (Identify_Command rufus_smart_h) 0x1000 100 2 0)) = 0
   \<and> SatAtaPassthrough jmicron_bridge rufus_smart_h 7 (Identify_Command rufus_smart_h)
        0x1000 512 2 0
       = (case ScsiPassthroughDirect jmicron_bridge rufus_smart_h 7
                 [0xA1, 0x08, 0x0E, 0, 1, 0, 0, 0, 0, 0xEC, 0, 0] 12 1 0x1000 512 2 0 of
            (r, w') \<Rightarrow> (r, [], w'))
   \<and> SatAtaPassthrough jmicron_bridge rufus_smart_h 7
        \<lparr> AtaCmd = 0xB0, Features = 0xD6, Lba_low = 1, Lba_mid = 0x4F, Lba_high = 0xC2,
          Device = 0 \<rparr> 0x1000 512 2 0
       = (case ScsiPassthroughDirect jmicron_bridge rufus_smart_h 7
                 [0xA1, 0x0A, 0x06, 0xD6, 1, 1, 0x4F, 0xC2, 0, 0xB0, 0, 0] 12 0 0x1000 512 2 0 of
            (r, w') \<Rightarrow> (r, [], w'))
   \<and> SatAtaPassthrough jmicron_bridge rufus_smart_h 7 (Identify_Command rufus_smart_h)
        0x1000 0 2 0
       = (case ScsiPassthroughDirect jmicron_bridge rufus_smart_h 7
                 [0xA1, 0x06, 0x0C, 0, 0, 0, 0, 0, 0, 0xEC, 0, 0] 12 1 0x1000 0 2 0 of
            (r, w') \<Rightarrow> (r, [], w'))"
  using SatAtaPassthrough_cdb
          [where H = rufus_smart_h and E = jmicron_bridge and hPhysical = 7
             and Command = "Identify_Command rufus_smart_h" and DataBuffer = "0x1000"
             and BufLen = 100 and Timeout = 2 and w = 0]
        SatAtaPassthrough_cdb
          [where H = rufus_smart_h and E = jmicron_bridge and hPhysical = 7
             and Command = "Identify_Command rufus_smart_h" and DataBuffer = "0x1000"
             and BufLen = 512 and Timeout = 2 and w = 0]
        SatAtaPassthrough_cdb
          [where H = rufus_smart_h and E = jmicron_bridge and hPhysical = 7
             and Command = "\<lparr> AtaCmd = 0xB0, Features = 0xD6, Lba_low = 1, Lba_mid = 0x4F,
                              Lba_high = 0xC2, Device = 0 \<rparr>" and DataBuffer = "0x1000"
             and BufLen = 512 and Timeout = 2 and w = 0]
        SatAtaPassthrough_cdb
          [where H = rufus_smart_h and E = jmicron_bridge and hPhysical = 7
             and Command = "Identify_Command rufus_smart_h" and DataBuffer = "0x1000"
             and BufLen = 0 and Timeout = 2 and w = 0]
  by (simp add: rufus_smart_h_def Identify_Command_def GetAtaDirection_def Let_def)

text \<open>
  Claim C8. Let the sector shift be 9. The JMicron and the Prolific encoder hand the same
  14 bytes to \<^verbatim>\<open>ScsiPassthroughDirect\<close>: the vendor passthrough opcode in byte 0; in byte 1
  the mode, 0x00 when the command is a DataOut transfer with a buffer that is not empty
  and 0x10 otherwise; in bytes 3 and 4 the high and the low byte of the 16-bit buffer
  length; then Features, the sector count (the buffer length divided by 512, as a byte),
  the three LBA bytes, the device byte, the ATA opcode and the trailer 0x06, 0x7B. The
  JMicron encoder passes the length 14, so the request carries all of them, trailer
  included; the Prolific encoder passes the length 12, so the request carries the same
  bytes without the last two.
\<close>

theorem UsbJMPLAtaPassthrough_cdb:
  assumes "SECTOR_SIZE_SHIFT_BIT H = 9"
  shows
   "let Direction = GetAtaDirection H (AtaCmd Command) (Features Command);
        mode = (if BufLen \<noteq> 0 \<and> Direction = ATA_PASSTHROUGH_DATA_OUT H then 0x00 else 0x10);
        Cdb = [USB_JMICRON_ATA_PASSTHROUGH H,
               mode,
               0,
               of_nat (BufLen div 256), of_nat BufLen,
               Features Command,
               of_nat (BufLen div 512),
               Lba_low Command, Lba_mid Command, Lba_high Command,
               Device Command,
               AtaCmd Command,
               0x06, 0x7b]
    in UsbJmicronAtaPassthrough E H hPhysical Command DataBuffer BufLen Timeout w
         = (case ScsiPassthroughDirect E H hPhysical Cdb 14 Direction DataBuffer BufLen Timeout w
            of (r, w') \<Rightarrow> (r, [], w'))
     \<and> UsbProlificAtaPassthrough E H hPhysical Command DataBuffer BufLen Timeout w
         = (case ScsiPassthroughDirect E H hPhysical Cdb 12 Direction DataBuffer BufLen Timeout w
            of (r, w') \<Rightarrow> (r, [], w'))
     \<and> sptd_Cdb (spt_request H Cdb 14 Direction DataBuffer BufLen Timeout) = Cdb @ [0, 0]
     \<and> sptd_Cdb (spt_request H Cdb 12 Direction DataBuffer BufLen Timeout)
         = butlast (butlast Cdb) @ [0, 0, 0, 0]
     \<and> unat (Cdb ! 3) * 256 + unat (Cdb ! 4) = BufLen mod 65536
     \<and> (BufLen \<le> 65535 \<longrightarrow> unat (Cdb ! 6) = BufLen div 512)"
proof -
  have jm: "UsbJMPLAtaPassthrough E H hPhysical Command DataBuffer BufLen Timeout prolific w
     = (case ScsiPassthroughDirect E H hPhysical
               [USB_JMICRON_ATA_PASSTHROUGH H,
                if BufLen \<noteq> 0 \<and> GetAtaDirection H (AtaCmd Command) (Features Command)
                                   = ATA_PASSTHROUGH_DATA_OUT H then 0x00 else 0x10,
                0, of_nat (BufLen div 256), of_nat BufLen, Features Command,
                of_nat (BufLen div 512), Lba_low Command, Lba_mid Command, Lba_high Command,
                Device Command, AtaCmd Command, 0x06, 0x7b]
               (14 - (if prolific then 2 else 0))
               (GetAtaDirection H (AtaCmd Command) (Features Command)) DataBuffer BufLen
               Timeout w
        of (r, w') \<Rightarrow> (r, [], w'))" for prolific
    using assms
    by (simp add: UsbJMPLAtaPassthrough_def Let_def replicate_14 drop_bit_eq_div
             split: prod.splits)
  show ?thesis
    unfolding Let_def
    by (simp add: UsbJmicronAtaPassthrough_def UsbProlificAtaPassthrough_def jm
          spt_request_def replicate_2 replicate_4 length_bytes sector_count_byte)
qed

theorem UsbJMPLAtaPassthrough_cdb_witness:
  "SECTOR_SIZE_SHIFT_BIT rufus_smart_h = 9 \<and> (512::nat) \<le> 65535
   \<and> UsbJmicronAtaPassthrough jmicron_bridge rufus_smart_h 7 (Identify_Command rufus_smart_h)
        0x1000 512 2 0
       = (case ScsiPassthroughDirect jmicron_bridge rufus_smart_h 7
                 [0xDF, 0x10, 0, 2, 0, 0, 1, 0, 0, 0, 0, 0xEC, 0x06, 0x7B] 14 1 0x1000 512 2 0 of
            (r, w') \<Rightarrow> (r, [], w'))
   \<and> UsbProlificAtaPassthrough jmicron_bridge rufus_smart_h 7 (Identify_Command rufus_smart_h)
        0x1000 512 2 0
       = (case ScsiPassthroughDirect jmicron_bridge rufus_smart_h 7
                 [0xDF, 0x10, 0, 2, 0, 0, 1, 0, 0, 0, 0, 0xEC, 0x06, 0x7B] 12 1 0x1000 512 2 0 of
            (r, w') \<Rightarrow> (r, [], w'))
   \<and> UsbJmicronAtaPassthrough jmicron_bridge rufus_smart_h 7 (Identify_Command rufus_smart_h)
        0x1000 512 2 0 = (0, [], 1)
   \<and> UsbProlificAtaPassthrough jmicron_bridge rufus_smart_h 7 (Identify_Command rufus_smart_h)
        0x1000 512 2 0 = (2, [], 1)
   \<and> UsbJmicronAtaPassthrough jmicron_bridge rufus_smart_h 7
        \<lparr> AtaCmd = 0xB0, Features = 0xD6, Lba_low = 1, Lba_mid = 0x4F, Lba_high = 0xC2,
          Device = 0 \<rparr> 0x1000 512 2 0
       = (case ScsiPassthroughDirect jmicron_bridge rufus_smart_h 7
                 [0xDF, 0x00, 0, 2, 0, 0xD6, 1, 1, 0x4F, 0xC2, 0, 0xB0, 0x06, 0x7B] 14 0 0x1000
                 512 2 0 of
            (r, w') \<Rightarrow> (r, [], w'))"
  using UsbJMPLAtaPassthrough_cdb
          [where H = rufus_smart_h and E = jmicron_bridge and hPhysical = 7
             and Command = "Identify_Command rufus_smart_h" and DataBuffer = "0x1000"
             and BufLen = 512 and Timeout = 2 and w = 0]
        UsbJMPLAtaPassthrough_cdb
          [where H = rufus_smart_h and E = jmicron_bridge and hPhysical = 7
             and Command = "\<lparr> AtaCmd = 0xB0, Features = 0xD6, Lba_low = 1, Lba_mid = 0x4F,
                              Lba_high = 0xC2, Device = 0 \<rparr>" and DataBuffer = "0x1000"
             and BufLen = 512 and Timeout = 2 and w = 0]
  by (simp add: rufus_smart_h_def Identify_Command_def GetAtaDirection_def Let_def
        ScsiPassthroughDirect_def jmicron_bridge_def sizeof_sptd_Cdb_def
        SCSI_IOCTL_DATA_UNSPECIFIED_def replicate_2 replicate_4)

section \<open>Properties of the probe\<close>

lemma length_attempts:
  "length (attempts tbl hPhysical Command idd n t w) = length tbl"
  by (induction tbl arbitrary: w) (auto split: prod.splits)

lemma attempts_quiet:
  assumes "\<forall>p \<in> set tbl. \<forall>w. fst (snd (fn p hPhysical Command idd n t w)) = []"
  shows "\<forall>j < length tbl. fst (snd (attempts tbl hPhysical Command idd n t w ! j)) = []"
  using assms
proof (induction tbl arbitrary: w)
  case Nil
  then show ?case by simp
next
  case (Cons p rest)
  show ?case
  proof (intro allI impI)
    fix j assume j: "j < length (p # rest)"
    obtain r out w' where f: "fn p hPhysical Command idd n t w = (r, out, w')"
      by (cases "fn p hPhysical Command idd n t w") auto
    with Cons.prems have out: "out = []"
      by (metis fst_conv list.set_intros(1) snd_conv)
    show "fst (snd (attempts (p # rest) hPhysical Command idd n t w ! j)) = []"
    proof (cases j)
      case 0
      with f out show ?thesis by simp
    next
      case (Suc j')
      with j have "j' < length rest" by simp
      moreover have "\<forall>j < length rest.
                       fst (snd (attempts rest hPhysical Command idd n t w' ! j)) = []"
        using Cons.prems by (intro Cons.IH) simp
      ultimately show ?thesis using f Suc by simp
    qed
  qed
qed

text \<open>With a buffer of 512 bytes no encoder of the table prints a line.\<close>

lemma pt_quiet:
  "\<forall>p \<in> set (pt E H). \<forall>w.
      fst (snd (fn p hPhysical Command idd sizeof_IDENTIFY_DEVICE_DATA t w)) = []"
  by (simp add: pt_def sizeof_IDENTIFY_DEVICE_DATA_def SatAtaPassthrough_def
        UsbJmicronAtaPassthrough_def UsbProlificAtaPassthrough_def UsbJMPLAtaPassthrough_def
        UsbSunPlusAtaPassthrough_def UsbCypressAtaPassthrough_def Let_def case_prod_beta)

text \<open>
  The loop over any table whose encoders print nothing: it stops at the first success,
  and runs through the table when there is none.
\<close>

lemma Identify_loop_success:
  assumes "k < length tbl"
    and "fst (attempts tbl h c idd sizeof_IDENTIFY_DEVICE_DATA (SPT_TIMEOUT_VALUE H) w ! k)
           = SPT_SUCCESS H"
    and "\<forall>j<k. fst (attempts tbl h c idd sizeof_IDENTIFY_DEVICE_DATA (SPT_TIMEOUT_VALUE H) w ! j)
                   \<noteq> SPT_SUCCESS H"
    and "\<forall>j<length tbl.
           fst (snd (attempts tbl h c idd sizeof_IDENTIFY_DEVICE_DATA (SPT_TIMEOUT_VALUE H) w ! j))
             = []"
  shows "Identify_loop E H tbl i h c idd w =
     (i + k,
      map (\<lambda>j. no_joy H (tbl ! j)
                 (fst (attempts tbl h c idd sizeof_IDENTIFY_DEVICE_DATA (SPT_TIMEOUT_VALUE H) w
                        ! j)))
          [0..<k]
        @ [''Success using '' @ type (tbl ! k) @ ''\<newline>'']
        @ smart_report E
            (snd (snd (attempts tbl h c idd sizeof_IDENTIFY_DEVICE_DATA (SPT_TIMEOUT_VALUE H) w
                        ! k))) idd,
      snd (snd (attempts tbl h c idd sizeof_IDENTIFY_DEVICE_DATA (SPT_TIMEOUT_VALUE H) w ! k)))"
  using assms
proof (induction tbl arbitrary: i k w)
  case Nil
  then show ?case by simp
next
  case (Cons p rest)
  obtain r out w' where
    f: "fn p h c idd sizeof_IDENTIFY_DEVICE_DATA (SPT_TIMEOUT_VALUE H) w = (r, out, w')"
    by (cases "fn p h c idd sizeof_IDENTIFY_DEVICE_DATA (SPT_TIMEOUT_VALUE H) w") auto
  from Cons.prems(4) f have out: "out = []" by fastforce
  show ?case
  proof (cases k)
    case 0
    with Cons.prems f out show ?thesis
      by (simp add: smart_report_def)
  next
    case (Suc k')
    from Cons.prems(3) Suc f have r: "r \<noteq> SPT_SUCCESS H" by fastforce
    have IH: "Identify_loop E H rest (Suc i) h c idd w' =
       (Suc i + k',
        map (\<lambda>j. no_joy H (rest ! j)
                   (fst (attempts rest h c idd sizeof_IDENTIFY_DEVICE_DATA (SPT_TIMEOUT_VALUE H) w'
                          ! j)))
            [0..<k']
          @ [''Success using '' @ type (rest ! k') @ ''\<newline>'']
          @ smart_report E
              (snd (snd (attempts rest h c idd sizeof_IDENTIFY_DEVICE_DATA (SPT_TIMEOUT_VALUE H) w'
                          ! k'))) idd,
        snd (snd (attempts rest h c idd sizeof_IDENTIFY_DEVICE_DATA (SPT_TIMEOUT_VALUE H) w'
                    ! k')))"
      using Cons.prems Suc f by (intro Cons.IH) auto
    show ?thesis
      using f out r Suc
      by (simp add: IH no_joy_def map_upt_Suc del: upt_Suc)
  qed
qed

lemma Identify_loop_exhausted:
  assumes "\<forall>j<length tbl.
             fst (attempts tbl h c idd sizeof_IDENTIFY_DEVICE_DATA (SPT_TIMEOUT_VALUE H) w ! j)
               \<noteq> SPT_SUCCESS H"
    and "\<forall>j<length tbl.
           fst (snd (attempts tbl h c idd sizeof_IDENTIFY_DEVICE_DATA (SPT_TIMEOUT_VALUE H) w ! j))
             = []"
  shows "Identify_loop E H tbl i h c idd w =
     (i + length tbl,
      map (\<lambda>j. no_joy H (tbl ! j)
                 (fst (attempts tbl h c idd sizeof_IDENTIFY_DEVICE_DATA (SPT_TIMEOUT_VALUE H) w
                        ! j)))
          [0..<length tbl],
      last (w # map (\<lambda>a. snd (snd a))
                  (attempts tbl h c idd sizeof_IDENTIFY_DEVICE_DATA (SPT_TIMEOUT_VALUE H) w)))"
  using assms
proof (induction tbl arbitrary: i w)
  case Nil
  then show ?case by simp
next
  case (Cons p rest)
  obtain r out w' where
    f: "fn p h c idd sizeof_IDENTIFY_DEVICE_DATA (SPT_TIMEOUT_VALUE H) w = (r, out, w')"
    by (cases "fn p h c idd sizeof_IDENTIFY_DEVICE_DATA (SPT_TIMEOUT_VALUE H) w") auto
  from Cons.prems(2) f have out: "out = []" by fastforce
  from Cons.prems(1) f have r: "r \<noteq> SPT_SUCCESS H" by fastforce
  have IH: "Identify_loop E H rest (Suc i) h c idd w' =
     (Suc i + length rest,
      map (\<lambda>j. no_joy H (rest ! j)
                 (fst (attempts rest h c idd sizeof_IDENTIFY_DEVICE_DATA (SPT_TIMEOUT_VALUE H) w'
                        ! j)))
          [0..<length rest],
      last (w' # map (\<lambda>a. snd (snd a))
                   (attempts rest h c idd sizeof_IDENTIFY_DEVICE_DATA (SPT_TIMEOUT_VALUE H) w')))"
    using Cons.prems f by (intro Cons.IH) auto
  show ?case
    using f out r
    by (simp add: IH no_joy_def map_upt_Suc del: upt_Suc)
qed

lemma length_pt: "length (pt E H) = 5"
  by (simp add: pt_def)

lemma first_success_nth:
  "first_success H A k \<Longrightarrow>
     k < length A \<and> fst (A ! k) = SPT_SUCCESS H \<and> (\<forall>j<k. fst (A ! j) \<noteq> SPT_SUCCESS H)"
  by (auto simp: first_success_def list_all_length)

lemma all_failed_nth:
  "all_failed H A \<Longrightarrow> \<forall>j<length A. fst (A ! j) \<noteq> SPT_SUCCESS H"
  by (simp add: all_failed_def list_all_length)

text \<open>What \<^verbatim>\<open>Identify\<close> returns, prints and leaves, once the buffer is allocated.\<close>

lemma Identify_success:
  assumes m: "aligned_malloc E sizeof_IDENTIFY_DEVICE_DATA 0x10 w = (idd, w0)" and "idd \<noteq> 0"
    and fs: "first_success H (Identify_attempts E H hPhysical idd w0) k"
  shows "Identify E H hPhysical w =
     (TRUE,
      map (\<lambda>j. no_joy H (pt E H ! j) (fst (Identify_attempts E H hPhysical idd w0 ! j))) [0..<k]
        @ [''Success using '' @ type (pt E H ! k) @ ''\<newline>'']
        @ smart_report E (snd (snd (Identify_attempts E H hPhysical idd w0 ! k))) idd,
      aligned_free E idd (snd (snd (Identify_attempts E H hPhysical idd w0 ! k))))"
proof -
  note fs' = first_success_nth [OF fs, unfolded Identify_attempts_def length_attempts]
  have loop: "Identify_loop E H (pt E H) 0 hPhysical (Identify_Command H) idd w0 =
     (0 + k,
      map (\<lambda>j. no_joy H (pt E H ! j) (fst (Identify_attempts E H hPhysical idd w0 ! j))) [0..<k]
        @ [''Success using '' @ type (pt E H ! k) @ ''\<newline>'']
        @ smart_report E (snd (snd (Identify_attempts E H hPhysical idd w0 ! k))) idd,
      snd (snd (Identify_attempts E H hPhysical idd w0 ! k)))"
    unfolding Identify_attempts_def
    using fs' by (intro Identify_loop_success attempts_quiet pt_quiet) auto
  from fs' have "k < 5" by (simp add: length_pt)
  with m \<open>idd \<noteq> 0\<close> show ?thesis
    by (simp add: Identify_def Let_def loop [unfolded Identify_Command_def] length_pt)
qed

lemma Identify_exhausted:
  assumes m: "aligned_malloc E sizeof_IDENTIFY_DEVICE_DATA 0x10 w = (idd, w0)" and "idd \<noteq> 0"
    and af: "all_failed H (Identify_attempts E H hPhysical idd w0)"
  shows "Identify E H hPhysical w =
     (TRUE,
      map (\<lambda>j. no_joy H (pt E H ! j) (fst (Identify_attempts E H hPhysical idd w0 ! j))) [0..<5]
        @ [''NO ATA FOR YOU!\<newline>''],
      aligned_free E idd (snd (snd (Identify_attempts E H hPhysical idd w0 ! 4))))"
proof -
  note af' = all_failed_nth [OF af, unfolded Identify_attempts_def length_attempts]
  have len: "length (Identify_attempts E H hPhysical idd w0) = 5"
    by (simp add: Identify_attempts_def length_attempts length_pt)
  then have ne: "Identify_attempts E H hPhysical idd w0 \<noteq> []"
    by auto
  have lst: "last (map (\<lambda>a. snd (snd a)) (Identify_attempts E H hPhysical idd w0))
               = snd (snd (Identify_attempts E H hPhysical idd w0 ! 4))"
    using len ne by (simp add: last_map last_conv_nth)
  have loop: "Identify_loop E H (pt E H) 0 hPhysical (Identify_Command H) idd w0 =
     (0 + length (pt E H),
      map (\<lambda>j. no_joy H (pt E H ! j) (fst (Identify_attempts E H hPhysical idd w0 ! j)))
          [0..<length (pt E H)],
      last (w0 # map (\<lambda>a. snd (snd a)) (Identify_attempts E H hPhysical idd w0)))"
    unfolding Identify_attempts_def
    using af' by (intro Identify_loop_exhausted attempts_quiet pt_quiet) auto
  from m \<open>idd \<noteq> 0\<close> ne show ?thesis
    by (simp add: Identify_def Let_def loop [unfolded Identify_Command_def] lst length_pt)
qed

text \<open>The attempts behind the two environments for evaluation.\<close>

lemma replicate_16: "replicate 16 x = [x, x, x, x, x, x, x, x, x, x, x, x, x, x, x, x]"
  by (simp add: numeral_eq_Suc)

lemmas encoder_defs =
  replicate_2 replicate_4 replicate_12 replicate_14 replicate_16
  SatAtaPassthrough_def UsbJmicronAtaPassthrough_def UsbProlificAtaPassthrough_def
  UsbJMPLAtaPassthrough_def UsbSunPlusAtaPassthrough_def UsbCypressAtaPassthrough_def
  ScsiPassthroughDirect_def GetAtaDirection_def Identify_Command_def
  sizeof_IDENTIFY_DEVICE_DATA_def sizeof_sptd_Cdb_def SCSI_IOCTL_DATA_UNSPECIFIED_def
  ERROR_SEM_TIMEOUT_def ERROR_INVALID_PARAMETER_def

lemma jmicron_bridge_attempts:
  "Identify_attempts jmicron_bridge rufus_smart_h 7 0x1000 0 =
     [(2, [], 1), (0, [], 2), (2, [], 3), (2, [], 4), (2, [], 5)]"
  by (simp add: Identify_attempts_def pt_def encoder_defs jmicron_bridge_def rufus_smart_h_def
        Let_def)

lemma silent_device_attempts:
  "Identify_attempts silent_device rufus_smart_h 7 0x1000 0 =
     [(- 6, [], 1), (- 6, [], 2), (- 6, [], 3), (- 6, [], 4), (- 6, [], 5)]"
  by (simp add: Identify_attempts_def pt_def encoder_defs silent_device_def rufus_smart_h_def
        Let_def)

lemma rufus_smart_h_codes:
  "SPT_SUCCESS rufus_smart_h = 0"
  "SPT_ERROR_CDB_LENGTH rufus_smart_h = - 1"
  "SPT_ERROR_BUFFER rufus_smart_h = - 2"
  "SPT_ERROR_DIRECTION rufus_smart_h = - 3"
  "SPT_ERROR_EXTENDED_CDB rufus_smart_h = - 4"
  "SPT_ERROR_CDB_OPCODE rufus_smart_h = - 5"
  "SPT_ERROR_TIMEOUT rufus_smart_h = - 6"
  "SPT_ERROR_INVALID_PARAMETER rufus_smart_h = - 7"
  "SPT_ERROR_CHECK_STATUS rufus_smart_h = - 8"
  "SPT_ERROR_UNKNOWN_ERROR rufus_smart_h = - 99"
  by (simp_all add: rufus_smart_h_def)

lemma environment_fields:
  "SmartCommands jmicron_bridge n p"
  "DumpBufferHex jmicron_bridge n p len = []"
  "aligned_free jmicron_bridge p n = n"
  "\<not> SmartCommands silent_device n p"
  "aligned_free silent_device p n = n"
  by (simp_all add: jmicron_bridge_def silent_device_def)

lemma upt_0_5: "[0..<5] = [0, 1, 2, 3, 4]"
  by (simp add: upt_conv_Cons numeral_eq_Suc)

lemma aligned_malloc_evaluation:
  "aligned_malloc jmicron_bridge sizeof_IDENTIFY_DEVICE_DATA 0x10 0 = (0x1000, 0)"
  "aligned_malloc silent_device sizeof_IDENTIFY_DEVICE_DATA 0x10 0 = (0x1000, 0)"
  by (simp_all add: jmicron_bridge_def silent_device_def)

lemma attempts_evaluation:
  "first_success rufus_smart_h (Identify_attempts jmicron_bridge rufus_smart_h 7 0x1000 0) 1"
  "all_failed rufus_smart_h (Identify_attempts silent_device rufus_smart_h 7 0x1000 0)"
  by (simp_all add: first_success_def all_failed_def jmicron_bridge_attempts
        silent_device_attempts rufus_smart_h_codes)

lemma last_smart_report:
  "last (xs @ smart_report E w idd) =
     (if SmartCommands E w idd then ''SMART support detected!\<newline>''
      else ''No SMART support\<newline>'')"
  by (simp add: smart_report_def)

text \<open>
  Claim C4. Once the buffer is allocated, the probe calls the encoders in the order of
  the table: SAT, JMicron, Prolific, SunPlus, Cypress. If the encoder at index \<open>k\<close> is
  the first to return Success, \<^verbatim>\<open>Identify\<close> prints one failure line for each of the \<open>k\<close>
  encoders before it, in order, then the success line that names the bridge at index
  \<open>k\<close>, then the report on the SMART bit; the world it leaves is the one after that
  encoder's call, the buffer freed: no later encoder was called. If all five fail, it
  prints five failure lines, one per encoder in order, then the line of overall failure,
  and leaves the world after the fifth call, the buffer freed.
\<close>

theorem Identify_probe_order:
  assumes "aligned_malloc E sizeof_IDENTIFY_DEVICE_DATA 0x10 w = (idd, w0)" and "idd \<noteq> 0"
  shows
   "let A = Identify_attempts E H hPhysical idd w0;
        failures = (\<lambda>n. map (\<lambda>j. no_joy H (pt E H ! j) (fst (A ! j))) [0..<n])
    in map type (pt E H) = [''SAT'', ''JMicron'', ''Prolific'', ''SunPlus'', ''Cypress'']
     \<and> map fn (pt E H) =
         [SatAtaPassthrough E H, UsbJmicronAtaPassthrough E H, UsbProlificAtaPassthrough E H,
          UsbSunPlusAtaPassthrough E H, UsbCypressAtaPassthrough E H]
     \<and> (first_success H A k \<longrightarrow>
          Identify E H hPhysical w =
            (TRUE,
             failures k @ [''Success using '' @ type (pt E H ! k) @ ''\<newline>'']
               @ smart_report E (snd (snd (A ! k))) idd,
             aligned_free E idd (snd (snd (A ! k)))))
     \<and> (all_failed H A \<longrightarrow>
          Identify E H hPhysical w =
            (TRUE,
             failures 5 @ [''NO ATA FOR YOU!\<newline>''],
             aligned_free E idd (snd (snd (A ! 4)))))"
  unfolding Let_def
proof (intro conjI impI)
  show "map type (pt E H) = [''SAT'', ''JMicron'', ''Prolific'', ''SunPlus'', ''Cypress'']"
    by (simp add: pt_def)
  show "map fn (pt E H) =
         [SatAtaPassthrough E H, UsbJmicronAtaPassthrough E H, UsbProlificAtaPassthrough E H,
          UsbSunPlusAtaPassthrough E H, UsbCypressAtaPassthrough E H]"
    by (simp add: pt_def)
next
  assume "first_success H (Identify_attempts E H hPhysical idd w0) k"
  with assms show "Identify E H hPhysical w =
            (TRUE,
             map (\<lambda>j. no_joy H (pt E H ! j) (fst (Identify_attempts E H hPhysical idd w0 ! j)))
                 [0..<k]
               @ [''Success using '' @ type (pt E H ! k) @ ''\<newline>'']
               @ smart_report E (snd (snd (Identify_attempts E H hPhysical idd w0 ! k))) idd,
             aligned_free E idd (snd (snd (Identify_attempts E H hPhysical idd w0 ! k))))"
    by (rule Identify_success)
next
  assume "all_failed H (Identify_attempts E H hPhysical idd w0)"
  with assms show "Identify E H hPhysical w =
            (TRUE,
             map (\<lambda>j. no_joy H (pt E H ! j) (fst (Identify_attempts E H hPhysical idd w0 ! j)))
                 [0..<5]
               @ [''NO ATA FOR YOU!\<newline>''],
             aligned_free E idd (snd (snd (Identify_attempts E H hPhysical idd w0 ! 4))))"
    by (rule Identify_exhausted)
qed

theorem Identify_probe_order_witness:
  "aligned_malloc jmicron_bridge sizeof_IDENTIFY_DEVICE_DATA 0x10 0 = (0x1000, 0)
   \<and> aligned_malloc silent_device sizeof_IDENTIFY_DEVICE_DATA 0x10 0 = (0x1000, 0)
   \<and> (0x1000::nat) \<noteq> 0
   \<and> first_success rufus_smart_h (Identify_attempts jmicron_bridge rufus_smart_h 7 0x1000 0) 1
   \<and> Identify jmicron_bridge rufus_smart_h 7 0 =
       (1, [''No joy with: SAT (SCSI status: 0x02)\<newline>'',
            ''Success using JMicron\<newline>'',
            ''SMART support detected!\<newline>''], 2)
   \<and> all_failed rufus_smart_h (Identify_attempts silent_device rufus_smart_h 7 0x1000 0)
   \<and> Identify silent_device rufus_smart_h 7 0 =
       (1, [''No joy with: SAT (Timeout)\<newline>'',
            ''No joy with: JMicron (Timeout)\<newline>'',
            ''No joy with: Prolific (Timeout)\<newline>'',
            ''No joy with: SunPlus (Timeout)\<newline>'',
            ''No joy with: Cypress (Timeout)\<newline>'',
            ''NO ATA FOR YOU!\<newline>''], 5)"
  using Identify_probe_order [OF aligned_malloc_evaluation(1), of rufus_smart_h 7 1]
        Identify_probe_order [OF aligned_malloc_evaluation(2), of rufus_smart_h 7 1]
        aligned_malloc_evaluation attempts_evaluation
  by (simp add: Let_def jmicron_bridge_attempts silent_device_attempts pt_def no_joy_def
        SptStrerr_def hex02X_def hex_digit_def smart_report_def TRUE_def rufus_smart_h_codes
        environment_fields upt_0_5 first_success_def all_failed_def)

text \<open>
  Claim C1. Once the buffer is allocated: if the probe succeeds, with the encoder at
  index \<open>k\<close>, the last line \<^verbatim>\<open>Identify\<close> prints says that SMART support was detected
  exactly when the SMART bit of the command-set-support field is set in the IDENTIFY data
  that this encoder's call left in the buffer, and says that there is no SMART support
  exactly when the bit is clear. If every encoder fails, the last line is the line of
  overall failure and neither of the two lines about SMART support is printed: the
  capability stays unknown. In each case the function returns normally, with \<^verbatim>\<open>TRUE\<close>.
\<close>

theorem Identify_smart_report:
  assumes "aligned_malloc E sizeof_IDENTIFY_DEVICE_DATA 0x10 w = (idd, w0)" and "idd \<noteq> 0"
  shows
   "let A = Identify_attempts E H hPhysical idd w0;
        R = Identify E H hPhysical w;
        out = fst (snd R)
    in (first_success H A k \<longrightarrow>
          fst R = TRUE
          \<and> (last out = ''SMART support detected!\<newline>'' \<longleftrightarrow> SmartCommands E (snd (snd (A ! k))) idd)
          \<and> (last out = ''No SMART support\<newline>'' \<longleftrightarrow> \<not> SmartCommands E (snd (snd (A ! k))) idd))
     \<and> (all_failed H A \<longrightarrow>
          fst R = TRUE
          \<and> last out = ''NO ATA FOR YOU!\<newline>''
          \<and> ''SMART support detected!\<newline>'' \<notin> set out
          \<and> ''No SMART support\<newline>'' \<notin> set out)"
  unfolding Let_def
proof (intro conjI impI)
  assume fs: "first_success H (Identify_attempts E H hPhysical idd w0) k"
  note R = Identify_success [OF assms fs]
  show "fst (Identify E H hPhysical w) = TRUE"
    by (simp add: R)
  have l: "last (fst (snd (Identify E H hPhysical w))) =
     (if SmartCommands E (snd (snd (Identify_attempts E H hPhysical idd w0 ! k))) idd
      then ''SMART support detected!\<newline>'' else ''No SMART support\<newline>'')"
    unfolding R fst_conv snd_conv append_assoc [symmetric]
    by (rule last_smart_report)
  show "(last (fst (snd (Identify E H hPhysical w))) = ''SMART support detected!\<newline>'')
          = SmartCommands E (snd (snd (Identify_attempts E H hPhysical idd w0 ! k))) idd"
    by (simp add: l)
  show "(last (fst (snd (Identify E H hPhysical w))) = ''No SMART support\<newline>'')
          = (\<not> SmartCommands E (snd (snd (Identify_attempts E H hPhysical idd w0 ! k))) idd)"
    by (simp add: l)
next
  assume af: "all_failed H (Identify_attempts E H hPhysical idd w0)"
  note R = Identify_exhausted [OF assms af]
  show "fst (Identify E H hPhysical w) = TRUE"
    by (simp add: R)
  show "last (fst (snd (Identify E H hPhysical w))) = ''NO ATA FOR YOU!\<newline>''"
    by (simp add: R)
  show "''SMART support detected!\<newline>'' \<notin> set (fst (snd (Identify E H hPhysical w)))"
    by (auto simp: R no_joy_def)
  show "''No SMART support\<newline>'' \<notin> set (fst (snd (Identify E H hPhysical w)))"
    by (auto simp: R no_joy_def)
qed

theorem Identify_smart_report_witness:
  "aligned_malloc jmicron_bridge sizeof_IDENTIFY_DEVICE_DATA 0x10 0 = (0x1000, 0)
   \<and> aligned_malloc silent_device sizeof_IDENTIFY_DEVICE_DATA 0x10 0 = (0x1000, 0)
   \<and> (0x1000::nat) \<noteq> 0
   \<and> first_success rufus_smart_h (Identify_attempts jmicron_bridge rufus_smart_h 7 0x1000 0) 1
   \<and> SmartCommands jmicron_bridge
        (snd (snd (Identify_attempts jmicron_bridge rufus_smart_h 7 0x1000 0 ! 1))) 0x1000
   \<and> fst (Identify jmicron_bridge rufus_smart_h 7 0) = TRUE
   \<and> last (fst (snd (Identify jmicron_bridge rufus_smart_h 7 0))) = ''SMART support detected!\<newline>''
   \<and> all_failed rufus_smart_h (Identify_attempts silent_device rufus_smart_h 7 0x1000 0)
   \<and> fst (Identify silent_device rufus_smart_h 7 0) = TRUE
   \<and> last (fst (snd (Identify silent_device rufus_smart_h 7 0))) = ''NO ATA FOR YOU!\<newline>''
   \<and> ''SMART support detected!\<newline>'' \<notin> set (fst (snd (Identify silent_device rufus_smart_h 7 0)))
   \<and> ''No SMART support\<newline>'' \<notin> set (fst (snd (Identify silent_device rufus_smart_h 7 0)))"
  using Identify_smart_report [OF aligned_malloc_evaluation(1), of rufus_smart_h 7 1]
        Identify_smart_report [OF aligned_malloc_evaluation(2), of rufus_smart_h 7 1]
        aligned_malloc_evaluation attempts_evaluation
  by (simp add: Let_def jmicron_bridge_attempts silent_device_attempts environment_fields
        first_success_def all_failed_def rufus_smart_h_codes)

section \<open>Properties of the HDD score\<close>

lemma strlen_le: "strlen s \<le> length s"
  by (simp add: strlen_def length_takeWhile_le)

lemma IsHDD_str_loop_defined:
  "ilen \<le> length strid \<Longrightarrow> \<forall>e \<in> set tbl. strlen (name e) \<noteq> 0
   \<Longrightarrow> IsHDD_str_loop tbl strid ilen sc \<noteq> None"
  by (induction tbl) (auto simp: Let_def cstr_at_def split: option.splits)

lemma manufacturer_str_nonempty: "\<forall>e \<in> set manufacturer_str. strlen (name e) \<noteq> 0"
  by (simp add: manufacturer_str_def strlen_def NUL_def)

text \<open>
  \<^verbatim>\<open>IsHDD\<close> reads no byte outside the storage of \<open>strid\<close> or of a table name, whatever the
  string: the index \<open>mlen\<close> is at most \<open>ilen\<close>, where the terminator is.
\<close>

lemma IsHDD_defined: "IsHDD drive_type vid' pid strid \<noteq> None"
proof -
  have "safe_strlen strid \<le> length strid"
    by (simp add: safe_strlen_def strlen_le)
  then have "IsHDD_str_loop manufacturer_str strid (safe_strlen strid) sc \<noteq> None" for sc
    by (rule IsHDD_str_loop_defined) (rule manufacturer_str_nonempty)
  from this [of 0] this [of 3] show ?thesis
    by (auto simp: IsHDD_def Let_def split: option.splits)
qed

text \<open>
  Claim C9. For any \<open>pid\<close>: a fixed drive with vendor ID 0x0bc2 and model string
  "ST1000DM003" scores 23; a drive of any type other than fixed (a removable one, for
  instance) with vendor ID 0x0951 and model string "Cruzer Blade" scores 0; a fixed drive
  with vendor ID 0x0000 and model string "SAMSUNG HD103SJ" scores 13.
\<close>

theorem IsHDD_examples:
  "IsHDD DRIVE_FIXED 0x0bc2 pid ''ST1000DM003'' = Some 23
   \<and> (drive_type \<noteq> DRIVE_FIXED \<longrightarrow> IsHDD drive_type 0x0951 pid ''Cruzer Blade'' = Some 0)
   \<and> IsHDD DRIVE_FIXED 0x0000 pid ''SAMSUNG HD103SJ'' = Some 13"
  by (simp add: IsHDD_def DRIVE_FIXED_def safe_strlen_def strlen_def NUL_def
        manufacturer_str_def manufacturer_vid_def tolower_def cstr_at_def)

theorem IsHDD_examples_witness:
  "DRIVE_REMOVABLE \<noteq> DRIVE_FIXED
   \<and> IsHDD DRIVE_FIXED 0x0bc2 0x3320 ''ST1000DM003'' = Some 23
   \<and> IsHDD DRIVE_REMOVABLE 0x0951 0x3320 ''Cruzer Blade'' = Some 0
   \<and> IsHDD DRIVE_FIXED 0x0000 0x3320 ''SAMSUNG HD103SJ'' = Some 13"
  using IsHDD_examples [of "0x3320" DRIVE_REMOVABLE]
  by (simp add: DRIVE_FIXED_def DRIVE_REMOVABLE_def)

text \<open>
  Claim C10. The score does not depend on the product ID: for every drive type, vendor
  ID and model string, any two product IDs give the same result.
\<close>

theorem IsHDD_pid_independent:
  "IsHDD drive_type vid' p1 strid = IsHDD drive_type vid' p2 strid"
  by (simp add: IsHDD_def)

text \<open>
  Claim C2 says that the +10 bonus for the manufacturer string is awarded exactly when
  some entry of the table matches, where an entry that ends in \<^verbatim>\<open>#\<close> matches a string that
  starts with its literal part followed immediately by an ASCII digit (the comment of the
  table: \<^verbatim>\<open>#\<close> means any number in [0-9]). For such an entry \<^verbatim>\<open>IsHDD\<close> compares the literal
  part and then tests \<^verbatim>\<open>strid[mlen]\<close>, the character one place after the one that stands
  where \<^verbatim>\<open>#\<close> is. So "ST1XYZ", which starts with "ST" followed by the digit 1, gets no
  bonus, and "STA1", which has no digit after "ST", gets the bonus.
\<close>

theorem IsHDD_wildcard_digit_position:
  "IsHDD DRIVE_REMOVABLE 0 0 ''ST1XYZ'' = Some 0 \<and> bonus_spec ''ST1XYZ''
   \<and> IsHDD DRIVE_REMOVABLE 0 0 ''STA1'' = Some 10 \<and> \<not> bonus_spec ''STA1''"
  by code_simp

end
